theory Spec2Isabelle
  imports Complex_Main "HOL-Library.AList"
begin

section \<open>The SMS extraction module of MVT (mvt/android/modules/adb/sms.py)\<close>

text \<open>
  A shallow embedding of the class \<open>SMS\<close>: the two extraction paths
  (\<open>_parse_db\<close> over the on-device store, \<open>_extract_sms_adb\<close> and
  \<open>_extract_sms_from_backup_tar\<close> over an Android backup) and the selector \<open>run\<close>.
  Python values are a datatype, exceptions are values of \<open>pyerr\<close>, the instance is a
  record that every method takes and returns, and the collaborators that live outside
  the file (the device transport, the link detector, the timestamp converter, tarfile,
  zlib, json, base64) are fields of an environment record.
  Line 144 of the file is the comment "Run ADB command to create a backup of SMS app"
  written without its comment sign; it is read as the comment it is.
\<close>

subsection \<open>Python values and exceptions\<close>

text \<open>
  \<open>LibraryError\<close> stands for the exception classes of the libraries (sqlite3, tarfile,
  zlib, json, binascii, the adb transport); the module never tells them apart.
  A \<open>str\<close> is a list of characters with code points below 256, a \<open>bytes\<close> is a list
  of bytes. A finite \<open>float\<close> carries its value as a rational number.
\<close>

datatype pyerr =
    InsufficientPrivileges
  | TypeError
  | AttributeError
  | KeyError
  | ValueError
  | IndexError
  | OverflowError
  | LibraryError string

datatype pyval =
    PNone
  | PBool bool
  | PInt int
  | PFloat rat
  | PFloatInf
  | PFloatNaN
  | PStr string
  | PBytes string
  | PList "pyval list"
  | PDict "(string \<times> pyval) list"
  | PDatetime int

definition py_bind :: "pyerr + 'a \<Rightarrow> ('a \<Rightarrow> pyerr + 'b) \<Rightarrow> pyerr + 'b" where
  "py_bind r f = (case r of Inl e \<Rightarrow> Inl e | Inr x \<Rightarrow> f x)"

text \<open>\<open>str.isspace\<close> on the code points below 256, and the ASCII whitespace of \<open>bytes\<close>.\<close>

definition py_isspace :: "char \<Rightarrow> bool" where
  "py_isspace c =
     (let n = (of_char c :: nat)
      in (9 \<le> n \<and> n \<le> 13) \<or> (28 \<le> n \<and> n \<le> 32) \<or> n = 133 \<or> n = 160)"

definition py_isspace_ascii :: "char \<Rightarrow> bool" where
  "py_isspace_ascii c = (let n = (of_char c :: nat) in (9 \<le> n \<and> n \<le> 13) \<or> n = 32)"

text \<open>\<open>s.strip()\<close>: whitespace removed at both ends.\<close>

definition py_strip :: "string \<Rightarrow> string" where
  "py_strip s = rev (dropWhile py_isspace (rev (dropWhile py_isspace s)))"

definition py_startswith :: "string \<Rightarrow> string \<Rightarrow> bool" where
  "py_startswith s p = (take (length p) s = p)"

definition py_endswith :: "string \<Rightarrow> string \<Rightarrow> bool" where
  "py_endswith s p = (length p \<le> length s \<and> drop (length s - length p) s = p)"

text \<open>
  \<open>int(x)\<close> on a text: optional whitespace, an optional sign, decimal digits with single
  underscores between digits, optional whitespace. (Digits outside ASCII, which \<open>int\<close>
  also reads in a \<open>str\<close>, are not in the model's alphabet of digits.)
\<close>

definition is_digit :: "char \<Rightarrow> bool" where
  "is_digit c = (let n = (of_char c :: nat) in 48 \<le> n \<and> n \<le> 57)"

fun digits_ok :: "string \<Rightarrow> bool" where
  "digits_ok [] = False"
| "digits_ok [c] = is_digit c"
| "digits_ok (c # d # r) =
     (is_digit c \<and> (if d = CHR ''_'' then digits_ok r else digits_ok (d # r)))"

fun digits_value :: "int \<Rightarrow> string \<Rightarrow> int" where
  "digits_value acc [] = acc"
| "digits_value acc (c # r) =
     (if is_digit c then digits_value (10 * acc + (int (of_char c) - 48)) r
      else digits_value acc r)"

definition py_int_literal :: "(char \<Rightarrow> bool) \<Rightarrow> string \<Rightarrow> int option" where
  "py_int_literal sp s =
     (let t = dropWhile sp s;
          neg = (t \<noteq> [] \<and> hd t = CHR ''-'');
          u = (if t \<noteq> [] \<and> (hd t = CHR ''-'' \<or> hd t = CHR ''+'') then tl t else t);
          ds = rev (dropWhile sp (rev u))
      in if digits_ok ds then Some ((if neg then - 1 else 1) * digits_value 0 ds) else None)"

fun py_int :: "pyval \<Rightarrow> pyerr + int" where
  "py_int (PInt n) = Inr n"
| "py_int (PBool b) = Inr (if b then 1 else 0)"
| "py_int (PFloat q) = Inr (if q < 0 then - \<lfloor>- q\<rfloor> else \<lfloor>q\<rfloor>)"
| "py_int PFloatInf = Inl OverflowError"
| "py_int PFloatNaN = Inl ValueError"
| "py_int (PStr s) =
     (case py_int_literal py_isspace s of None \<Rightarrow> Inl ValueError | Some n \<Rightarrow> Inr n)"
| "py_int (PBytes s) =
     (case py_int_literal py_isspace_ascii s of None \<Rightarrow> Inl ValueError | Some n \<Rightarrow> Inr n)"
| "py_int PNone = Inl TypeError"
| "py_int (PList xs) = Inl TypeError"
| "py_int (PDict d) = Inl TypeError"
| "py_int (PDatetime t) = Inl TypeError"

text \<open>\<open>x == 1\<close> for a value of the store: true for the numbers equal to one.\<close>

fun py_eq_one :: "pyval \<Rightarrow> bool" where
  "py_eq_one (PInt n) = (n = 1)"
| "py_eq_one (PBool b) = b"
| "py_eq_one (PFloat q) = (q = 1)"
| "py_eq_one v = False"

text \<open>\<open>message[k]\<close> and \<open>message[k] = v\<close> with a \<open>str\<close> key: only a dict takes one.\<close>

fun getitem :: "pyval \<Rightarrow> string \<Rightarrow> pyerr + pyval" where
  "getitem (PDict d) k = (case map_of d k of None \<Rightarrow> Inl KeyError | Some v \<Rightarrow> Inr v)"
| "getitem v k = Inl TypeError"

fun setitem :: "pyval \<Rightarrow> string \<Rightarrow> pyval \<Rightarrow> pyerr + pyval" where
  "setitem (PDict d) k v = Inr (PDict (AList.update k v d))"
| "setitem m k v = Inl TypeError"

text \<open>\<open>for x in v\<close>: the elements a value yields, or TypeError when it is not iterable.\<close>

fun py_iter :: "pyval \<Rightarrow> pyerr + pyval list" where
  "py_iter (PList xs) = Inr xs"
| "py_iter (PDict d) = Inr (map (\<lambda>kv. PStr (fst kv)) d)"
| "py_iter (PStr s) = Inr (map (\<lambda>c. PStr [c]) s)"
| "py_iter (PBytes s) = Inr (map (\<lambda>c. PInt (int (of_char c))) s)"
| "py_iter v = Inl TypeError"

text \<open>\<open>body.strip() == ""\<close>: only \<open>str\<close> and \<open>bytes\<close> have the method, and a \<open>bytes\<close>
  never equals a \<open>str\<close>.\<close>

fun strip_is_empty :: "pyval \<Rightarrow> pyerr + bool" where
  "strip_is_empty (PStr s) = Inr (py_strip s = [])"
| "strip_is_empty (PBytes s) = Inr False"
| "strip_is_empty v = Inl AttributeError"

subsection \<open>The on-device stores and the two queries\<close>

text \<open>
  The tables of bugle_db and of mmssms.db, with the columns the queries read. Key
  columns hold an integer or NULL; the columns a query returns hold whatever value
  Python receives for them (None, int, float, str or bytes).
\<close>

record message_row =
  m_id :: int
  m_conversation_id :: "int option"
  m_sender_id :: "int option"

record conversation_row =
  c_id :: int

record part_row =
  p_message_id :: "int option"
  p_timestamp :: pyval
  p_text :: pyval

record participant_row =
  ppl_id :: int
  ppl_contact_id :: "int option"
  ppl_normalized_destination :: pyval

record conversation_participant_row =
  cp_conversation_id :: "int option"
  cp_participant_id :: "int option"

record bugle_db =
  messages :: "message_row list"
  conversations :: "conversation_row list"
  parts :: "part_row list"
  participants :: "participant_row list"
  conversation_participants :: "conversation_participant_row list"

record sms_row =
  sms_address :: pyval
  sms_date_sent :: pyval
  sms_type :: pyval
  sms_body :: pyval

text \<open>A local copy of a store file: the tables it has. A file with neither set of
  tables is not a database the queries can run on.\<close>

record store =
  bugle_tables :: "bugle_db option"
  sms_table :: "sms_row list option"

definition SMS_BUGLE_PATH :: string where
  "SMS_BUGLE_PATH = ''data/data/com.google.android.apps.messaging/databases/bugle_db''"

definition SMS_MMSSMS_PATH :: string where
  "SMS_MMSSMS_PATH = ''data/data/com.android.providers.telephony/databases/mmssms.db''"

text \<open>\<open>SELECT _id FROM participants WHERE contact_id=-1\<close>\<close>

definition unknown_contact_ids :: "bugle_db \<Rightarrow> int list" where
  "unknown_contact_ids db = [ppl_id q. q \<leftarrow> participants db, ppl_contact_id q = Some (- 1)]"

text \<open>\<open>CASE WHEN m.sender_id IN (...) THEN 2 ELSE 1 END incoming\<close>; a NULL sender is in
  no list.\<close>

definition incoming_flag :: "bugle_db \<Rightarrow> message_row \<Rightarrow> int" where
  "incoming_flag db m =
     (case m_sender_id m of
        None \<Rightarrow> 1
      | Some sid \<Rightarrow> if sid \<in> set (unknown_contact_ids db) then 2 else 1)"

text \<open>
  SMS_BUGLE_QUERY, the rows it yields for one row \<open>m\<close> of \<open>messages\<close>: the join with
  conversations, parts, participants and conversation_participants under the four
  conditions of the WHERE clause (a NULL key equals nothing). The rows are listed in the
  order of the FROM clause.
\<close>

definition bugle_rows_of :: "bugle_db \<Rightarrow> message_row \<Rightarrow> pyval list list" where
  "bugle_rows_of db m =
     [[ppl_normalized_destination ppl, p_timestamp p, PInt (incoming_flag db m), p_text p].
        c \<leftarrow> conversations db, p \<leftarrow> parts db, ppl \<leftarrow> participants db,
        cp \<leftarrow> conversation_participants db,
        m_conversation_id m = Some (c_id c),
        p_message_id p = Some (m_id m),
        cp_conversation_id cp = Some (c_id c),
        cp_participant_id cp = Some (ppl_id ppl)]"

definition sms_bugle_rows :: "bugle_db \<Rightarrow> pyval list list" where
  "sms_bugle_rows db = concat (map (bugle_rows_of db) (messages db))"

text \<open>SMS_MMSMS_QUERY: \<open>SELECT address, date_sent, type, body FROM sms\<close>.\<close>

definition sms_mmsms_rows :: "sms_row list \<Rightarrow> pyval list list" where
  "sms_mmsms_rows t = map (\<lambda>r. [sms_address r, sms_date_sent r, sms_type r, sms_body r]) t"

text \<open>Both queries name their columns address, timestamp, incoming, body.\<close>

definition sms_columns :: "string list" where
  "sms_columns = [''address'', ''timestamp'', ''incoming'', ''body'']"

datatype query = SMS_BUGLE_QUERY | SMS_MMSMS_QUERY

text \<open>\<open>cur.execute(query)\<close>: the column names and the rows, or the error of sqlite3 when
  the file lacks the tables.\<close>

fun execute :: "query \<Rightarrow> store \<Rightarrow> pyerr + (string list \<times> pyval list list)" where
  "execute SMS_BUGLE_QUERY st =
     (case bugle_tables st of
        None \<Rightarrow> Inl (LibraryError ''sqlite3'')
      | Some db \<Rightarrow> Inr (sms_columns, sms_bugle_rows db))"
| "execute SMS_MMSMS_QUERY st =
     (case sms_table st of
        None \<Rightarrow> Inl (LibraryError ''sqlite3'')
      | Some t \<Rightarrow> Inr (sms_columns, sms_mmsms_rows t))"

subsection \<open>The collaborators and the instance\<close>

text \<open>
  The functions the module imports or inherits, as parameters: \<open>check_for_links\<close> and
  \<open>convert_timestamp_to_iso\<close> of mvt.common.utils, \<open>datetime.utcfromtimestamp\<close> (it
  gets the exact quotient of the division by 1000; the rounding of that quotient to a
  double is its business), the adb transport of the base class, and the decoders
  base64, tarfile, zlib and json. \<open>tarfile_open\<close> gives, for every member of the archive,
  its name and what \<open>tar.extractfile(member).read()\<close> gives for it.
\<close>

record env =
  check_for_links :: "pyval \<Rightarrow> pyerr + string list"
  convert_timestamp_to_iso :: "pyval \<Rightarrow> pyerr + pyval"
  utcfromtimestamp :: "rat \<Rightarrow> pyerr + pyval"
  adb_check_file_exists :: "string \<Rightarrow> pyerr + bool"
  adb_copy_file :: "string \<Rightarrow> pyerr + store"
  adb_command :: "string \<Rightarrow> pyerr + string"
  b64decode :: "string \<Rightarrow> pyerr + string"
  tarfile_open :: "string \<Rightarrow> pyerr + (string \<times> (pyerr + string)) list"
  zlib_decompress :: "string \<Rightarrow> pyerr + string"
  json_loads :: "string \<Rightarrow> pyerr + pyval"

text \<open>What the module does that a caller can observe besides its results.\<close>

datatype event =
    CheckFileExists string
  | ProcessFile string
  | Execute query
  | AdbCommand string
  | LogInfo nat
  | LogDebug string
  | LogWarning
  | LogError

text \<open>
  The instance: \<open>self.results\<close>, \<open>self.SMS_DB_TYPE\<close> (None while the attribute is not
  set), whether the sqlite3 connection of \<open>_parse_db\<close> is open, and the events so far.
  \<open>self.log\<close> is taken to be a logger, as on an instance that is given one: the
  \<open>self.log\<close> calls of \<open>run\<close> and of the backup path are events that never fail.
  \<open>_parse_db\<close> logs through the logger of the module (line 21) and never reads
  \<open>self.log\<close>.
\<close>

record sms_module =
  results :: "pyval list"
  SMS_DB_TYPE :: "int option"
  conn_open :: bool
  events :: "event list"

datatype outcome = Returned | Raised pyerr

definition emit :: "event \<Rightarrow> sms_module \<Rightarrow> sms_module" where
  "emit ev s = s\<lparr>events := events s @ [ev]\<rparr>"

subsection \<open>The direct-access path: \<open>_parse_db\<close>\<close>

text \<open>
  \<open>message = {}\<close> filled from the row: \<open>message[names[index]] = value\<close> for every
  column of the row, IndexError when the row is longer than the list of names.
\<close>

fun fill_message ::
  "string list \<Rightarrow> nat \<Rightarrow> pyval list \<Rightarrow> (string \<times> pyval) list \<Rightarrow> pyerr + pyval" where
  "fill_message names i [] d = Inr (PDict d)"
| "fill_message names i (v # vs) d =
     (if i < length names then fill_message names (Suc i) vs (AList.update (names ! i) v d)
      else Inl IndexError)"

text \<open>Lines 97 to 102: the dict of the row, then \<open>direction\<close> and \<open>isodate\<close>.\<close>

definition row_message :: "env \<Rightarrow> string list \<Rightarrow> pyval list \<Rightarrow> pyerr + pyval" where
  "row_message env names item =
     py_bind (fill_message names 0 item []) (\<lambda>m.
     py_bind (getitem m ''incoming'') (\<lambda>inc.
     py_bind (setitem m ''direction''
                (PStr (if py_eq_one inc then ''received'' else ''sent''))) (\<lambda>m1.
     py_bind (getitem m1 ''timestamp'') (\<lambda>ts.
     py_bind (convert_timestamp_to_iso env ts) (\<lambda>iso.
     setitem m1 ''isodate'' iso)))))"

text \<open>
  The condition of lines 106 and 133:
  \<open>check_for_links(message["body"]) or message["body"].strip() == ""\<close>.
  The right operand is evaluated only when the list of links is empty.
\<close>

definition retain :: "env \<Rightarrow> pyval \<Rightarrow> pyerr + bool" where
  "retain env message =
     py_bind (getitem message ''body'') (\<lambda>body.
     py_bind (check_for_links env body) (\<lambda>links.
     if links \<noteq> [] then Inr True else strip_is_empty body))"

text \<open>The loop of lines 96 to 107; an exception leaves it with the rows appended so far.\<close>

fun parse_rows ::
  "env \<Rightarrow> string list \<Rightarrow> pyval list list \<Rightarrow> sms_module \<Rightarrow> outcome \<times> sms_module" where
  "parse_rows env names [] s = (Returned, s)"
| "parse_rows env names (item # items) s =
     (case row_message env names item of
        Inl e \<Rightarrow> (Raised e, s)
      | Inr message \<Rightarrow>
          (case retain env message of
             Inl e \<Rightarrow> (Raised e, s)
           | Inr keep \<Rightarrow>
               parse_rows env names items
                 (if keep then s\<lparr>results := results s @ [message]\<rparr> else s)))"

text \<open>
  \<open>_parse_db\<close>. The connection is opened first and closed by the two \<open>close()\<close> calls
  after the loop. Reading \<open>self.SMS_DB_TYPE\<close> before it is set is an AttributeError; with
  a type that is neither 1 nor 2 no query runs, \<open>cur.description\<close> is None and the
  comprehension over it a TypeError.
\<close>

definition parse_db :: "env \<Rightarrow> store \<Rightarrow> sms_module \<Rightarrow> outcome \<times> sms_module" where
  "parse_db env db s0 =
     (let s = s0\<lparr>conn_open := True\<rparr> in
      case SMS_DB_TYPE s of
        None \<Rightarrow> (Raised AttributeError, s)
      | Some t \<Rightarrow>
          if t \<noteq> 1 \<and> t \<noteq> 2 then (Raised TypeError, s)
          else
            (let q = (if t = 1 then SMS_BUGLE_QUERY else SMS_MMSMS_QUERY);
                 s1 = emit (Execute q) s
             in case execute q db of
                  Inl e \<Rightarrow> (Raised e, s1)
                | Inr (names, rows) \<Rightarrow>
                    (case parse_rows env names rows s1 of
                       (Raised e, s2) \<Rightarrow> (Raised e, s2)
                     | (Returned, s2) \<Rightarrow>
                         (Returned,
                          emit (LogInfo (length (results s2))) (s2\<lparr>conn_open := False\<rparr>)))))"

subsection \<open>The backup path\<close>

text \<open>Lines 128 to 130: \<open>isodate\<close> and \<open>direction\<close> of a message of the backup.\<close>

definition backup_message :: "env \<Rightarrow> pyval \<Rightarrow> pyerr + pyval" where
  "backup_message env message =
     py_bind (getitem message ''date'') (\<lambda>d.
     py_bind (py_int d) (\<lambda>ms.
     py_bind (utcfromtimestamp env (of_int ms / 1000)) (\<lambda>utc_timestamp.
     py_bind (convert_timestamp_to_iso env utc_timestamp) (\<lambda>iso.
     py_bind (setitem message ''isodate'' iso) (\<lambda>m1.
     py_bind (getitem m1 ''date_sent'') (\<lambda>ds.
     py_bind (py_int ds) (\<lambda>n.
     setitem m1 ''direction'' (PStr (if n \<noteq> 0 then ''sent'' else ''received'')))))))))"

text \<open>The loop of lines 127 to 134.\<close>

fun backup_messages :: "env \<Rightarrow> pyval list \<Rightarrow> sms_module \<Rightarrow> outcome \<times> sms_module" where
  "backup_messages env [] s = (Returned, s)"
| "backup_messages env (x # xs) s =
     (case backup_message env x of
        Inl e \<Rightarrow> (Raised e, s)
      | Inr message \<Rightarrow>
          (case retain env message of
             Inl e \<Rightarrow> (Raised e, s)
           | Inr keep \<Rightarrow>
               backup_messages env xs
                 (if keep then s\<lparr>results := results s @ [message]\<rparr> else s)))"

text \<open>The loop of lines 118 to 134 over the members of the archive.\<close>

fun backup_members ::
  "env \<Rightarrow> (string \<times> (pyerr + string)) list \<Rightarrow> sms_module \<Rightarrow> outcome \<times> sms_module" where
  "backup_members env [] s = (Returned, s)"
| "backup_members env (member # members) s =
     (if \<not> py_endswith (fst member) ''_sms_backup'' then backup_members env members s
      else
        (let s1 = emit (LogDebug (fst member)) s in
         case py_bind (snd member) (\<lambda>raw.
              py_bind (zlib_decompress env raw) (\<lambda>sms_part_zlib.
              py_bind (json_loads env sms_part_zlib) py_iter)) of
           Inl e \<Rightarrow> (Raised e, s1)
         | Inr json_data \<Rightarrow>
             (case backup_messages env json_data s1 of
                (Raised e, s2) \<Rightarrow> (Raised e, s2)
              | (Returned, s2) \<Rightarrow> backup_members env members s2)))"

definition extract_sms_from_backup_tar ::
  "env \<Rightarrow> string \<Rightarrow> sms_module \<Rightarrow> outcome \<times> sms_module" where
  "extract_sms_from_backup_tar env tar_data s =
     (case tarfile_open env tar_data of
        Inl e \<Rightarrow> (Raised e, s)
      | Inr members \<Rightarrow>
          (case backup_members env members s of
             (Raised e, s1) \<Rightarrow> (Raised e, s1)
           | (Returned, s1) \<Rightarrow> (Returned, emit (LogInfo (length (results s1))) s1)))"

text \<open>\<open>data.split(b"\n", n)\<close>: at most \<open>n\<close> cuts, at the first newlines.\<close>

fun py_split_nl :: "nat \<Rightarrow> string \<Rightarrow> string list" where
  "py_split_nl 0 s = [s]"
| "py_split_nl (Suc n) s =
     (if CHR 0x0A \<in> set s
      then takeWhile (\<lambda>c. c \<noteq> CHR 0x0A) s #
           py_split_nl n (tl (dropWhile (\<lambda>c. c \<noteq> CHR 0x0A) s))
      else [s])"

definition backup_command :: string where
  "backup_command =
     ''/system/bin/bu backup -nocompress com.android.providers.telephony | base64''"

text \<open>
  Lines 150 to 160 of \<open>_extract_sms_adb\<close>, on the decoded output of the backup command:
  the magic check, the split into exactly five fields (the unpacking of any other
  number of fields is a ValueError), the test
  \<open>encryption != b"none" or int(is_compressed)\<close>, then the archive.
\<close>

definition decode_backup :: "env \<Rightarrow> string \<Rightarrow> sms_module \<Rightarrow> outcome \<times> sms_module" where
  "decode_backup env backup_output s =
     (if \<not> py_startswith backup_output ''ANDROID BACKUP'' then (Returned, emit LogError s)
      else
        (case py_split_nl 4 backup_output of
           [magic_header, version, is_compressed, encryption, tar_data] \<Rightarrow>
             if encryption \<noteq> ''none'' then (Returned, emit LogError s)
             else
               (case py_int (PBytes is_compressed) of
                  Inl e \<Rightarrow> (Raised e, s)
                | Inr n \<Rightarrow>
                    if n \<noteq> 0 then (Returned, emit LogError s)
                    else extract_sms_from_backup_tar env tar_data s)
         | _ \<Rightarrow> (Raised ValueError, s)))"

definition extract_sms_adb :: "env \<Rightarrow> sms_module \<Rightarrow> outcome \<times> sms_module" where
  "extract_sms_adb env s0 =
     (let s = emit (AdbCommand backup_command) (emit LogWarning s0) in
      case py_bind (adb_command env backup_command) (b64decode env) of
        Inl e \<Rightarrow> (Raised e, s)
      | Inr backup_output \<Rightarrow> decode_backup env backup_output s)"

subsection \<open>The selector: \<open>run\<close>\<close>

text \<open>
  Modelled from the spec: \<open>AndroidExtraction._adb_process_file\<close> of
  mvt/android/modules/adb/base.py, which is not among the sources. The spec gives the
  transport \<open>copyFile(path)\<close>, which returns the file or raises the insufficient-privilege
  signal or another failure, and the workflow "copy/stream file, then parse": the file
  is copied from the device and the process routine is called once on the local copy.
\<close>

definition adb_process_file ::
  "env \<Rightarrow> string \<Rightarrow> (store \<Rightarrow> sms_module \<Rightarrow> outcome \<times> sms_module) \<Rightarrow> sms_module
     \<Rightarrow> outcome \<times> sms_module" where
  "adb_process_file env remote_path process_routine s =
     (let s1 = emit (ProcessFile remote_path) s in
      case adb_copy_file env remote_path of
        Inl e \<Rightarrow> (Raised e, s1)
      | Inr local_copy \<Rightarrow> process_routine local_copy s1)"

text \<open>The body of the \<open>try\<close> of \<open>run\<close>, lines 164 to 170.\<close>

definition direct_access :: "env \<Rightarrow> sms_module \<Rightarrow> outcome \<times> sms_module" where
  "direct_access env s =
     (let s1 = emit (CheckFileExists (''/'' @ SMS_BUGLE_PATH)) s in
      case adb_check_file_exists env (''/'' @ SMS_BUGLE_PATH) of
        Inl e \<Rightarrow> (Raised e, s1)
      | Inr True \<Rightarrow>
          adb_process_file env (''/'' @ SMS_BUGLE_PATH) (parse_db env)
            (s1\<lparr>SMS_DB_TYPE := Some 1\<rparr>)
      | Inr False \<Rightarrow>
          (let s2 = emit (CheckFileExists (''/'' @ SMS_MMSSMS_PATH)) s1 in
           case adb_check_file_exists env (''/'' @ SMS_MMSSMS_PATH) of
             Inl e \<Rightarrow> (Raised e, s2)
           | Inr True \<Rightarrow>
               adb_process_file env (''/'' @ SMS_MMSSMS_PATH) (parse_db env)
                 (s2\<lparr>SMS_DB_TYPE := Some 2\<rparr>)
           | Inr False \<Rightarrow> (Returned, s2)))"

text \<open>
  \<open>run\<close>: the \<open>except\<close> clause catches InsufficientPrivileges and nothing else; after it
  come the warning and \<open>_extract_sms_adb\<close>, outside the \<open>try\<close>.
\<close>

definition run :: "env \<Rightarrow> sms_module \<Rightarrow> outcome \<times> sms_module" where
  "run env s =
     (case direct_access env s of
        (Returned, s1) \<Rightarrow> (Returned, s1)
      | (Raised e, s1) \<Rightarrow>
          if e = InsufficientPrivileges then extract_sms_adb env (emit LogWarning s1)
          else (Raised e, s1))"

subsection \<open>Instances made with default arguments\<close>





subsection \<open>The properties, in the words of the specification\<close>

text \<open>The retention policy of the specification:
  \<open>retain(body) = containsLink(body) OR trim(body) == ""\<close>.\<close>

definition has_link :: "env \<Rightarrow> pyval \<Rightarrow> bool" where
  "has_link env body = (case check_for_links env body of Inr (l # ls) \<Rightarrow> True | _ \<Rightarrow> False)"

definition blank_body :: "pyval \<Rightarrow> bool" where
  "blank_body body = (case body of PStr t \<Rightarrow> list_all py_isspace t | _ \<Rightarrow> False)"

definition keeps :: "env \<Rightarrow> pyval \<Rightarrow> bool" where
  "keeps env message =
     (case getitem message ''body'' of
        Inr body \<Rightarrow> has_link env body \<or> blank_body body
      | Inl e \<Rightarrow> False)"

text \<open>\<open>new\<close> is \<open>old\<close> followed by records that all satisfy the retention policy.\<close>

definition kept_suffix :: "env \<Rightarrow> pyval list \<Rightarrow> pyval list \<Rightarrow> bool" where
  "kept_suffix env old new =
     (take (length old) new = old \<and> list_all (keeps env) (drop (length old) new))"

text \<open>
  "The sender participates in the synthetic unknown-contact group": some row of
  \<open>participants\<close> with \<open>contact_id = -1\<close> is the sender of the message.
\<close>

definition sender_in_unknown_group :: "bugle_db \<Rightarrow> message_row \<Rightarrow> bool" where
  "sender_in_unknown_group db m =
     list_ex (\<lambda>q. m_sender_id m = Some (ppl_id q) \<and> ppl_contact_id q = Some (- 1))
       (participants db)"

text \<open>The probes and the queries among the events of a run.\<close>

fun is_direct_event :: "event \<Rightarrow> bool" where
  "is_direct_event (CheckFileExists p) = True"
| "is_direct_event (Execute q) = True"
| "is_direct_event ev = False"

definition direct_trace :: "event list \<Rightarrow> event list" where
  "direct_trace evs = filter is_direct_event evs"

text \<open>
  The variant of a run in the words of the specification: ChatApp when its path is
  found, LegacyTelephony when the ChatApp path is absent and its own path is found.
\<close>

definition spec_variant :: "env \<Rightarrow> query option" where
  "spec_variant env =
     (case adb_check_file_exists env (''/'' @ SMS_BUGLE_PATH) of
        Inr True \<Rightarrow> Some SMS_BUGLE_QUERY
      | Inr False \<Rightarrow>
          (case adb_check_file_exists env (''/'' @ SMS_MMSSMS_PATH) of
             Inr True \<Rightarrow> Some SMS_MMSMS_QUERY
           | _ \<Rightarrow> None)
      | Inl e \<Rightarrow> None)"

definition variant_path :: "query \<Rightarrow> string" where
  "variant_path q =
     (case q of SMS_BUGLE_QUERY \<Rightarrow> ''/'' @ SMS_BUGLE_PATH
      | SMS_MMSMS_QUERY \<Rightarrow> ''/'' @ SMS_MMSSMS_PATH)"

definition variant_type :: "query \<Rightarrow> int" where
  "variant_type q = (case q of SMS_BUGLE_QUERY \<Rightarrow> 1 | SMS_MMSMS_QUERY \<Rightarrow> 2)"

text \<open>
  The probes and queries the specification allows: the ChatApp probe, the
  LegacyTelephony probe only after a ChatApp probe that found nothing, and the query of
  the variant, once, when the store of the variant could be copied.
\<close>

definition spec_direct_trace :: "env \<Rightarrow> event list" where
  "spec_direct_trace env =
     CheckFileExists (''/'' @ SMS_BUGLE_PATH) #
     (if adb_check_file_exists env (''/'' @ SMS_BUGLE_PATH) = Inr False
      then [CheckFileExists (''/'' @ SMS_MMSSMS_PATH)] else []) @
     (case spec_variant env of
        None \<Rightarrow> []
      | Some q \<Rightarrow>
          (case adb_copy_file env (variant_path q) of
             Inl e \<Rightarrow> []
           | Inr local_copy \<Rightarrow> [Execute q]))"

text \<open>The wire format of a backup stream: the magic header and three more header
  lines, then the archive.\<close>

definition backup_stream :: "string \<Rightarrow> string \<Rightarrow> string \<Rightarrow> string \<Rightarrow> string" where
  "backup_stream version is_compressed encryption tar_data =
     ''ANDROID BACKUP'' @ CHR 0x0A # version @ CHR 0x0A # is_compressed @
       CHR 0x0A # encryption @ CHR 0x0A # tar_data"

subsection \<open>Sample collaborators and inputs\<close>

text \<open>
  A device for the evaluation of the model on concrete inputs: a link detector that
  takes a text starting with "http://" for one link and raises TypeError on anything
  that is no text; a clock that counts microseconds; a converter that returns the
  value it is given; and a transport on which every file is absent and every command
  and decoder fails. The examples below replace single fields of it.
\<close>

definition sample_check_for_links :: "pyval \<Rightarrow> pyerr + string list" where
  "sample_check_for_links v =
     (case v of
        PStr t \<Rightarrow> Inr (if py_startswith t ''http://'' then [t] else [])
      | _ \<Rightarrow> Inl TypeError)"

definition sample_env :: env where
  "sample_env =
     \<lparr>check_for_links = sample_check_for_links,
      convert_timestamp_to_iso = (\<lambda>v. Inr v),
      utcfromtimestamp = (\<lambda>q. Inr (PDatetime \<lfloor>q * 1000000\<rfloor>)),
      adb_check_file_exists = (\<lambda>p. Inr False),
      adb_copy_file = (\<lambda>p. Inl (LibraryError ''adb'')),
      adb_command = (\<lambda>c. Inl (LibraryError ''adb'')),
      b64decode = (\<lambda>t. Inl (LibraryError ''binascii'')),
      tarfile_open = (\<lambda>b. Inl (LibraryError ''tarfile'')),
      zlib_decompress = (\<lambda>b. Inl (LibraryError ''zlib'')),
      json_loads = (\<lambda>b. Inl (LibraryError ''json''))\<rparr>"

definition new_module :: sms_module where
  "new_module = \<lparr>results = [], SMS_DB_TYPE = None, conn_open = False, events = []\<rparr>"

text \<open>A bugle_db with one message whose sender, participant 7, has \<open>contact_id = -1\<close>.\<close>

definition sample_bugle_db :: bugle_db where
  "sample_bugle_db =
     \<lparr>messages = [\<lparr>m_id = 1, m_conversation_id = Some 10, m_sender_id = Some 7\<rparr>],
      conversations = [\<lparr>c_id = 10\<rparr>],
      parts = [\<lparr>p_message_id = Some 1, p_timestamp = PInt 1644000000000,
                p_text = PStr ''http://evil.example''\<rparr>],
      participants = [\<lparr>ppl_id = 7, ppl_contact_id = Some (- 1),
                       ppl_normalized_destination = PStr ''+1555''\<rparr>],
      conversation_participants = [\<lparr>cp_conversation_id = Some 10, cp_participant_id = Some 7\<rparr>]\<rparr>"

text \<open>An sms table with a link, a blank body, ordinary text, and (last) a NULL body.\<close>

definition sample_sms_table :: "sms_row list" where
  "sample_sms_table =
     [\<lparr>sms_address = PStr ''+1555'', sms_date_sent = PInt 1, sms_type = PInt 2,
       sms_body = PStr ''http://evil.example''\<rparr>,
      \<lparr>sms_address = PStr ''+1556'', sms_date_sent = PInt 0, sms_type = PInt 1,
       sms_body = PStr ''   ''\<rparr>,
      \<lparr>sms_address = PStr ''+1557'', sms_date_sent = PInt 0, sms_type = PInt 1,
       sms_body = PStr ''ok see you then''\<rparr>]"

definition null_body_row :: sms_row where
  "null_body_row =
     \<lparr>sms_address = PStr ''+1558'', sms_date_sent = PInt 0, sms_type = PInt 1,
      sms_body = PNone\<rparr>"

text \<open>The device with the LegacyTelephony store only, readable.\<close>

definition legacy_env :: "sms_row list \<Rightarrow> env" where
  "legacy_env t =
     sample_env
       \<lparr>adb_check_file_exists := (\<lambda>p. Inr (p = ''/'' @ SMS_MMSSMS_PATH)),
        adb_copy_file := (\<lambda>p. Inr \<lparr>bugle_tables = None, sms_table = Some t\<rparr>)\<rparr>"

text \<open>The device with the ChatApp store, readable.\<close>

definition chatapp_env :: "bugle_db \<Rightarrow> env" where
  "chatapp_env db =
     sample_env
       \<lparr>adb_check_file_exists := (\<lambda>p. Inr True),
        adb_copy_file := (\<lambda>p. Inr \<lparr>bugle_tables = Some db, sms_table = None\<rparr>)\<rparr>"

text \<open>
  The device that denies direct access and answers the backup command with the given
  stream (the base64 layer is the identity here); the archive of the stream has the
  given members, which inflate to themselves and parse to the given JSON value.
\<close>

definition backup_env ::
  "string \<Rightarrow> (pyerr + (string \<times> (pyerr + string)) list) \<Rightarrow> (pyerr + pyval) \<Rightarrow> env" where
  "backup_env stream members json =
     sample_env
       \<lparr>adb_check_file_exists := (\<lambda>p. Inl InsufficientPrivileges),
        adb_command := (\<lambda>c. Inr stream),
        b64decode := (\<lambda>t. Inr t),
        tarfile_open := (\<lambda>b. members),
        zlib_decompress := (\<lambda>b. Inr b),
        json_loads := (\<lambda>b. json)\<rparr>"

definition sample_backup_message :: pyval where
  "sample_backup_message =
     PDict [(''address'', PStr ''+1555''), (''body'', PStr ''http://evil.example''),
            (''date'', PStr ''1644000000123''), (''date_sent'', PStr ''0'')]"


section \<open>Evaluation on the samples\<close>

lemmas model_defs =
  run_def direct_access_def adb_process_file_def parse_db_def extract_sms_adb_def
  decode_backup_def extract_sms_from_backup_tar_def row_message_def retain_def
  backup_message_def py_bind_def emit_def Let_def
  execute.simps sms_mmsms_rows_def sms_bugle_rows_def bugle_rows_of_def incoming_flag_def
  unknown_contact_ids_def sms_columns_def SMS_BUGLE_PATH_def SMS_MMSSMS_PATH_def
  py_strip_def py_isspace_def py_startswith_def py_endswith_def backup_command_def

lemmas sample_defs =
  legacy_env_def chatapp_env_def backup_env_def sample_env_def sample_check_for_links_def
  new_module_def sample_sms_table_def sample_bugle_db_def null_body_row_def
  sample_backup_message_def backup_stream_def


section \<open>The retention policy and the result set\<close>

lemma py_strip_empty_iff: "py_strip t = [] \<longleftrightarrow> list_all py_isspace t"
proof
  assume "py_strip t = []"
  then have "\<forall>c \<in> set (dropWhile py_isspace t). py_isspace c"
    by (simp add: py_strip_def dropWhile_eq_Nil_conv)
  then have "dropWhile py_isspace t = []"
    by (metis hd_dropWhile hd_in_set)
  then show "list_all py_isspace t"
    by (simp add: list_all_iff)
next
  assume "list_all py_isspace t"
  then show "py_strip t = []"
    by (auto simp: py_strip_def list_all_iff dest: set_dropWhileD)
qed

lemma retain_keeps: "retain env m = Inr b \<Longrightarrow> b = keeps env m"
  by (cases "getitem m ''body''"; cases "check_for_links env (projr (getitem m ''body''))")
     (auto simp: retain_def keeps_def py_bind_def has_link_def blank_body_def
        py_strip_empty_iff split: list.splits pyval.splits if_splits)


lemma results_emit [simp]: "results (emit ev s) = results s"
  by (simp add: emit_def)

lemma SMS_DB_TYPE_emit [simp]: "SMS_DB_TYPE (emit ev s) = SMS_DB_TYPE s"
  by (simp add: emit_def)

lemma conn_open_emit [simp]: "conn_open (emit ev s) = conn_open s"
  by (simp add: emit_def)

lemma events_emit [simp]: "events (emit ev s) = events s @ [ev]"
  by (simp add: emit_def)

lemma kept_suffix_refl [simp]: "kept_suffix env xs xs"
  by (simp add: kept_suffix_def)

lemma kept_suffix_append:
  "kept_suffix env xs (xs @ ms) \<longleftrightarrow> list_all (keeps env) ms"
  by (simp add: kept_suffix_def)

lemma kept_suffixE:
  "kept_suffix env old new \<Longrightarrow> \<exists>ms. new = old @ ms \<and> list_all (keeps env) ms"
  unfolding kept_suffix_def by (metis append_take_drop_id)

lemma kept_suffix_trans:
  "kept_suffix env xs ys \<Longrightarrow> kept_suffix env ys zs \<Longrightarrow> kept_suffix env xs zs"
proof -
  assume a: "kept_suffix env xs ys" and b: "kept_suffix env ys zs"
  from a obtain ms where ms: "ys = xs @ ms" "list_all (keeps env) ms"
    using kept_suffixE by blast
  from b obtain ns where ns: "zs = ys @ ns" "list_all (keeps env) ns"
    using kept_suffixE by blast
  have "zs = xs @ (ms @ ns)" using ms ns by simp
  moreover have "list_all (keeps env) (ms @ ns)" using ms ns by simp
  ultimately show ?thesis using kept_suffix_append by metis
qed

lemma parse_rows_results:
  "parse_rows env names rows s = (out, s') \<Longrightarrow>
   \<exists>k. k \<le> length rows \<and> (out = Returned \<longrightarrow> k = length rows) \<and>
     list_all (\<lambda>item. \<not> isl (row_message env names item)) (take k rows) \<and>
     results s' = results s @
       filter (keeps env) (map (\<lambda>item. projr (row_message env names item)) (take k rows))"
proof (induction rows arbitrary: s)
  case Nil
  then show ?case by simp
next
  case (Cons item items)
  show ?case
  proof (cases "row_message env names item")
    case (Inl e)
    with Cons.prems have "results s' = results s" "out = Raised e" by auto
    then show ?thesis by (intro exI [of _ 0]) simp
  next
    case (Inr m)
    show ?thesis
    proof (cases "retain env m")
      case (Inl e)
      with Inr Cons.prems have "results s' = results s" "out = Raised e" by auto
      then show ?thesis by (intro exI [of _ 0]) simp
    next
      case keep: (Inr b)
      define s1 where "s1 = (if b then s\<lparr>results := results s @ [m]\<rparr> else s)"
      have run: "parse_rows env names items s1 = (out, s')"
        using Cons.prems Inr keep by (simp add: s1_def)
      from Cons.IH [OF run] obtain k where k: "k \<le> length items"
        "out = Returned \<longrightarrow> k = length items"
        "list_all (\<lambda>item. \<not> isl (row_message env names item)) (take k items)"
        "results s' = results s1 @
           filter (keeps env) (map (\<lambda>item. projr (row_message env names item)) (take k items))"
        by blast
      have b: "b = keeps env m" using keep by (rule retain_keeps)
      have "results s1 = results s @ filter (keeps env) [m]"
        using b by (simp add: s1_def)
      with k Inr show ?thesis
        by (intro exI [of _ "Suc k"]) simp
    qed
  qed
qed

lemma backup_messages_results:
  "backup_messages env xs s = (out, s') \<Longrightarrow>
   \<exists>k. k \<le> length xs \<and> (out = Returned \<longrightarrow> k = length xs) \<and>
     list_all (\<lambda>x. \<not> isl (backup_message env x)) (take k xs) \<and>
     results s' = results s @
       filter (keeps env) (map (\<lambda>x. projr (backup_message env x)) (take k xs))"
proof (induction xs arbitrary: s)
  case Nil
  then show ?case by simp
next
  case (Cons x xs)
  show ?case
  proof (cases "backup_message env x")
    case (Inl e)
    with Cons.prems have "results s' = results s" "out = Raised e" by auto
    then show ?thesis by (intro exI [of _ 0]) simp
  next
    case (Inr m)
    show ?thesis
    proof (cases "retain env m")
      case (Inl e)
      with Inr Cons.prems have "results s' = results s" "out = Raised e" by auto
      then show ?thesis by (intro exI [of _ 0]) simp
    next
      case keep: (Inr b)
      define s1 where "s1 = (if b then s\<lparr>results := results s @ [m]\<rparr> else s)"
      have run: "backup_messages env xs s1 = (out, s')"
        using Cons.prems Inr keep by (simp add: s1_def)
      from Cons.IH [OF run] obtain k where k: "k \<le> length xs"
        "out = Returned \<longrightarrow> k = length xs"
        "list_all (\<lambda>x. \<not> isl (backup_message env x)) (take k xs)"
        "results s' = results s1 @
           filter (keeps env) (map (\<lambda>x. projr (backup_message env x)) (take k xs))"
        by blast
      have b: "b = keeps env m" using keep by (rule retain_keeps)
      have "results s1 = results s @ filter (keeps env) [m]"
        using b by (simp add: s1_def)
      with k Inr show ?thesis
        by (intro exI [of _ "Suc k"]) simp
    qed
  qed
qed

lemma filter_kept: "list_all (keeps env) (filter (keeps env) ms)"
  by (simp add: list_all_iff)

lemma parse_rows_kept:
  "parse_rows env names rows s = (out, s') \<Longrightarrow> kept_suffix env (results s) (results s')"
  using parse_rows_results [of env names rows s out s'] kept_suffix_append filter_kept
  by metis

lemma backup_messages_kept:
  "backup_messages env xs s = (out, s') \<Longrightarrow> kept_suffix env (results s) (results s')"
  using backup_messages_results [of env xs s out s'] kept_suffix_append filter_kept
  by metis


lemma backup_members_kept:
  "backup_members env members s = (out, s') \<Longrightarrow> kept_suffix env (results s) (results s')"
proof (induction members arbitrary: s)
  case Nil
  then show ?case by simp
next
  case (Cons member members)
  show ?case
  proof (cases "py_endswith (fst member) ''_sms_backup''")
    case False
    with Cons show ?thesis by simp
  next
    case True
    define s1 where "s1 = emit (LogDebug (fst member)) s"
    define decoded where "decoded = py_bind (snd member) (\<lambda>raw.
              py_bind (zlib_decompress env raw) (\<lambda>sms_part_zlib.
              py_bind (json_loads env sms_part_zlib) py_iter))"
    show ?thesis
    proof (cases decoded)
      case (Inl e)
      with Cons.prems True have "s' = s1"
        by (simp add: s1_def decoded_def Let_def)
      then show ?thesis by (simp add: s1_def)
    next
      case (Inr json_data)
      obtain o2 s2 where inner: "backup_messages env json_data s1 = (o2, s2)"
        by (cases "backup_messages env json_data s1")
      have k1: "kept_suffix env (results s) (results s2)"
        using backup_messages_kept [OF inner] by (simp add: s1_def)
      show ?thesis
      proof (cases o2)
        case Returned
        with Cons.prems True Inr inner have "backup_members env members s2 = (out, s')"
          by (simp add: s1_def decoded_def Let_def)
        from Cons.IH [OF this] k1 show ?thesis by (rule kept_suffix_trans [rotated])
      next
        case (Raised e)
        with Cons.prems True Inr inner have "s' = s2"
          by (simp add: s1_def decoded_def Let_def)
        with k1 show ?thesis by simp
      qed
    qed
  qed
qed

lemma extract_sms_from_backup_tar_kept:
  "extract_sms_from_backup_tar env tar_data s = (out, s') \<Longrightarrow>
   kept_suffix env (results s) (results s')"
proof (cases "tarfile_open env tar_data")
  case (Inl e)
  assume "extract_sms_from_backup_tar env tar_data s = (out, s')"
  with Inl show ?thesis by (simp add: extract_sms_from_backup_tar_def)
next
  case (Inr members)
  assume a: "extract_sms_from_backup_tar env tar_data s = (out, s')"
  obtain o1 s1 where m: "backup_members env members s = (o1, s1)"
    by (cases "backup_members env members s")
  have "results s' = results s1"
    using a Inr m by (cases o1) (auto simp: extract_sms_from_backup_tar_def)
  with backup_members_kept [OF m] show ?thesis by simp
qed

lemma decode_backup_cases:
  assumes "decode_backup env stream s = (out, s')"
  shows "(out, s') = (Returned, emit LogError s) \<or> (\<exists>e. (out, s') = (Raised e, s)) \<or>
         (\<exists>tar_data. extract_sms_from_backup_tar env tar_data s = (out, s'))"
  using assms unfolding decode_backup_def
  by (simp split: if_splits list.splits sum.splits) auto

lemma decode_backup_kept:
  "decode_backup env stream s = (out, s') \<Longrightarrow> kept_suffix env (results s) (results s')"
  using decode_backup_cases [of env stream s out s'] extract_sms_from_backup_tar_kept
  by fastforce

lemma extract_sms_adb_kept:
  "extract_sms_adb env s = (out, s') \<Longrightarrow> kept_suffix env (results s) (results s')"
  unfolding extract_sms_adb_def Let_def
  by (auto split: sum.splits dest!: decode_backup_kept)

lemma parse_db_kept:
  "parse_db env db s = (out, s') \<Longrightarrow> kept_suffix env (results s) (results s')"
  unfolding parse_db_def Let_def
  by (auto split: option.splits if_splits sum.splits prod.splits outcome.splits
        dest!: parse_rows_kept)

lemma adb_process_file_kept:
  "adb_process_file env p (parse_db env) s = (out, s') \<Longrightarrow>
   kept_suffix env (results s) (results s')"
  unfolding adb_process_file_def Let_def
  by (auto split: sum.splits dest!: parse_db_kept)

lemma direct_access_kept:
  "direct_access env s = (out, s') \<Longrightarrow> kept_suffix env (results s) (results s')"
  unfolding direct_access_def Let_def
  by (auto split: sum.splits bool.splits dest!: adb_process_file_kept)

lemma run_kept:
  "run env s = (out, s') \<Longrightarrow> kept_suffix env (results s) (results s')"
proof -
  assume a: "run env s = (out, s')"
  obtain o1 s1 where d: "direct_access env s = (o1, s1)"
    by (cases "direct_access env s")
  have k1: "kept_suffix env (results s) (results s1)"
    using d by (rule direct_access_kept)
  show ?thesis
  proof (cases "o1 = Raised InsufficientPrivileges")
    case True
    with a d have "extract_sms_adb env (emit LogWarning s1) = (out, s')"
      by (simp add: run_def)
    from extract_sms_adb_kept [OF this] have "kept_suffix env (results s1) (results s')"
      by simp
    with k1 show ?thesis by (rule kept_suffix_trans)
  next
    case False
    with a d have "s' = s1"
      by (cases o1) (auto simp: run_def)
    with k1 show ?thesis by simp
  qed
qed


lemma direct_trace_append [simp]:
  "direct_trace (xs @ ys) = direct_trace xs @ direct_trace ys"
  by (simp add: direct_trace_def)

lemma direct_trace_Nil [simp]: "direct_trace [] = []"
  by (simp add: direct_trace_def)

lemma direct_trace_Cons [simp]:
  "direct_trace (ev # evs) = (if is_direct_event ev then ev # direct_trace evs else direct_trace evs)"
  by (simp add: direct_trace_def)

lemma parse_rows_frame:
  "parse_rows env names rows s = (out, s') \<Longrightarrow>
   SMS_DB_TYPE s' = SMS_DB_TYPE s \<and> conn_open s' = conn_open s \<and> events s' = events s"
proof (induction rows arbitrary: s)
  case Nil
  then show ?case by simp
next
  case (Cons item items)
  show ?case
  proof (cases "row_message env names item")
    case (Inl e)
    with Cons.prems show ?thesis by simp
  next
    case (Inr m)
    show ?thesis
    proof (cases "retain env m")
      case (Inl e)
      with Inr Cons.prems show ?thesis by simp
    next
      case keep: (Inr b)
      with Inr Cons.prems
      have "parse_rows env names items (if b then s\<lparr>results := results s @ [m]\<rparr> else s)
              = (out, s')"
        by simp
      from Cons.IH [OF this] show ?thesis by (simp split: if_splits)
    qed
  qed
qed

lemma backup_messages_frame:
  "backup_messages env xs s = (out, s') \<Longrightarrow>
   SMS_DB_TYPE s' = SMS_DB_TYPE s \<and> conn_open s' = conn_open s \<and> events s' = events s"
proof (induction xs arbitrary: s)
  case Nil
  then show ?case by simp
next
  case (Cons x xs)
  show ?case
  proof (cases "backup_message env x")
    case (Inl e)
    with Cons.prems show ?thesis by simp
  next
    case (Inr m)
    show ?thesis
    proof (cases "retain env m")
      case (Inl e)
      with Inr Cons.prems show ?thesis by simp
    next
      case keep: (Inr b)
      with Inr Cons.prems
      have "backup_messages env xs (if b then s\<lparr>results := results s @ [m]\<rparr> else s)
              = (out, s')"
        by simp
      from Cons.IH [OF this] show ?thesis by (simp split: if_splits)
    qed
  qed
qed

lemma backup_members_frame:
  "backup_members env members s = (out, s') \<Longrightarrow>
   SMS_DB_TYPE s' = SMS_DB_TYPE s \<and> conn_open s' = conn_open s \<and>
   (\<exists>evs. events s' = events s @ evs \<and> direct_trace evs = [])"
proof (induction members arbitrary: s)
  case Nil
  then show ?case by simp
next
  case (Cons member members)
  show ?case
  proof (cases "py_endswith (fst member) ''_sms_backup''")
    case False
    with Cons show ?thesis by simp
  next
    case True
    define s1 where "s1 = emit (LogDebug (fst member)) s"
    define decoded where "decoded = py_bind (snd member) (\<lambda>raw.
              py_bind (zlib_decompress env raw) (\<lambda>sms_part_zlib.
              py_bind (json_loads env sms_part_zlib) py_iter))"
    have f1: "SMS_DB_TYPE s1 = SMS_DB_TYPE s \<and> conn_open s1 = conn_open s \<and>
              (\<exists>evs. events s1 = events s @ evs \<and> direct_trace evs = [])"
      by (simp add: s1_def)
    show ?thesis
    proof (cases decoded)
      case (Inl e)
      with Cons.prems True have "s' = s1"
        by (simp add: s1_def decoded_def Let_def)
      with f1 show ?thesis by simp
    next
      case (Inr json_data)
      obtain o2 s2 where inner: "backup_messages env json_data s1 = (o2, s2)"
        by (cases "backup_messages env json_data s1")
      have f2: "SMS_DB_TYPE s2 = SMS_DB_TYPE s \<and> conn_open s2 = conn_open s \<and>
                (\<exists>evs. events s2 = events s @ evs \<and> direct_trace evs = [])"
        using backup_messages_frame [OF inner] f1 by simp
      show ?thesis
      proof (cases o2)
        case Returned
        with Cons.prems True Inr inner have "backup_members env members s2 = (out, s')"
          by (simp add: s1_def decoded_def Let_def)
        from Cons.IH [OF this] f2 show ?thesis by auto
      next
        case (Raised e)
        with Cons.prems True Inr inner have "s' = s2"
          by (simp add: s1_def decoded_def Let_def)
        with f2 show ?thesis by simp
      qed
    qed
  qed
qed

lemma extract_sms_from_backup_tar_frame:
  "extract_sms_from_backup_tar env tar_data s = (out, s') \<Longrightarrow>
   SMS_DB_TYPE s' = SMS_DB_TYPE s \<and> conn_open s' = conn_open s \<and>
   (\<exists>evs. events s' = events s @ evs \<and> direct_trace evs = [])"
proof (cases "tarfile_open env tar_data")
  case (Inl e)
  assume "extract_sms_from_backup_tar env tar_data s = (out, s')"
  with Inl show ?thesis by (simp add: extract_sms_from_backup_tar_def)
next
  case (Inr members)
  assume a: "extract_sms_from_backup_tar env tar_data s = (out, s')"
  obtain o1 s1 where m: "backup_members env members s = (o1, s1)"
    by (cases "backup_members env members s")
  have "s' = s1 \<or> s' = emit (LogInfo (length (results s1))) s1"
    using a Inr m by (cases o1) (auto simp: extract_sms_from_backup_tar_def)
  with backup_members_frame [OF m] show ?thesis by auto
qed

lemma decode_backup_frame:
  "decode_backup env stream s = (out, s') \<Longrightarrow>
   SMS_DB_TYPE s' = SMS_DB_TYPE s \<and> conn_open s' = conn_open s \<and>
   (\<exists>evs. events s' = events s @ evs \<and> direct_trace evs = [])"
proof -
  assume a: "decode_backup env stream s = (out, s')"
  from decode_backup_cases [OF a] consider
      "s' = emit LogError s" | "s' = s"
    | tar_data where "extract_sms_from_backup_tar env tar_data s = (out, s')"
    by auto
  then show ?thesis
  proof cases
    case 1
    then show ?thesis by simp
  next
    case 2
    then show ?thesis by simp
  next
    case 3
    then show ?thesis by (rule extract_sms_from_backup_tar_frame)
  qed
qed

lemma extract_sms_adb_frame:
  "extract_sms_adb env s = (out, s') \<Longrightarrow>
   SMS_DB_TYPE s' = SMS_DB_TYPE s \<and> conn_open s' = conn_open s \<and>
   (\<exists>evs. events s' = events s @ evs \<and> direct_trace evs = [])"
  unfolding extract_sms_adb_def Let_def
  by (auto split: sum.splits dest!: decode_backup_frame)

lemma extract_sms_adb_events:
  "extract_sms_adb env s = (out, s') \<Longrightarrow>
   \<exists>evs. events s' = events s @ [LogWarning, AdbCommand backup_command] @ evs"
  unfolding extract_sms_adb_def Let_def
  by (auto split: sum.splits dest!: decode_backup_frame)


section \<open>C1: what is appended to the result set\<close>




section \<open>The direction of a ChatApp record\<close>

lemma row_message_direction:
  "row_message env sms_columns [a, ts, inc, b] = Inr message \<Longrightarrow>
   getitem message ''direction'' =
     Inr (PStr (if py_eq_one inc then ''received'' else ''sent''))"
  by (auto simp: row_message_def sms_columns_def py_bind_def split: sum.splits)

lemma incoming_flag_group:
  "incoming_flag db m = (if sender_in_unknown_group db m then 2 else 1)"
  by (cases "m_sender_id m")
     (auto simp: incoming_flag_def sender_in_unknown_group_def unknown_contact_ids_def
        list_ex_iff)

lemma bugle_rows_shape:
  "item \<in> set (bugle_rows_of db m) \<Longrightarrow>
   \<exists>a ts b. item = [a, ts, PInt (incoming_flag db m), b]"
  by (auto simp: bugle_rows_of_def)

lemma chatapp_run:
  "run (chatapp_env sample_bugle_db) new_module =
     (Returned,
      \<lparr>results =
         [PDict [(''address'', PStr ''+1555''), (''timestamp'', PInt 1644000000000),
                 (''incoming'', PInt 2), (''body'', PStr ''http://evil.example''),
                 (''direction'', PStr ''sent''), (''isodate'', PInt 1644000000000)]],
       SMS_DB_TYPE = Some 1, conn_open = False,
       events =
         [CheckFileExists (''/'' @ SMS_BUGLE_PATH), ProcessFile (''/'' @ SMS_BUGLE_PATH),
          Execute SMS_BUGLE_QUERY, LogInfo 1]\<rparr>)"
  by (simp add: model_defs sample_defs)

text \<open>
  C2, as the code has it. The query gives \<open>incoming = 2\<close> to a row whose sender is in
  the unknown-contact group and \<open>incoming = 1\<close> to every other row, and line 101 reads
  only \<open>1\<close> as received: the record of a message whose sender is in the group has
  direction sent, and the record of any other message has direction received.
\<close>

theorem bugle_unknown_sender_is_sent:
  "item \<in> set (bugle_rows_of db m) \<Longrightarrow> row_message env sms_columns item = Inr message \<Longrightarrow>
   getitem message ''direction'' =
     Inr (PStr (if sender_in_unknown_group db m then ''sent'' else ''received''))"
proof -
  assume item: "item \<in> set (bugle_rows_of db m)"
    and msg: "row_message env sms_columns item = Inr message"
  from bugle_rows_shape [OF item] obtain a ts b
    where "item = [a, ts, PInt (incoming_flag db m), b]" by blast
  with msg have "getitem message ''direction'' =
      Inr (PStr (if py_eq_one (PInt (incoming_flag db m)) then ''received'' else ''sent''))"
    using row_message_direction by blast
  then show ?thesis by (simp add: incoming_flag_group)
qed

theorem bugle_unknown_sender_is_sent_witness:
  "sender_in_unknown_group sample_bugle_db
     \<lparr>m_id = 1, m_conversation_id = Some 10, m_sender_id = Some 7\<rparr> \<and>
   bugle_rows_of sample_bugle_db \<lparr>m_id = 1, m_conversation_id = Some 10, m_sender_id = Some 7\<rparr>
     = [[PStr ''+1555'', PInt 1644000000000, PInt 2, PStr ''http://evil.example'']] \<and>
   getitem
     (projr (row_message sample_env sms_columns
        [PStr ''+1555'', PInt 1644000000000, PInt 2, PStr ''http://evil.example'']))
     ''direction'' = Inr (PStr ''sent'')"
proof -
  let ?m = "\<lparr>m_id = 1, m_conversation_id = Some 10, m_sender_id = Some 7\<rparr>"
  let ?item = "[PStr ''+1555'', PInt 1644000000000, PInt 2, PStr ''http://evil.example'']"
  have g: "sender_in_unknown_group sample_bugle_db ?m"
    by (simp add: sender_in_unknown_group_def sample_bugle_db_def)
  have rows: "bugle_rows_of sample_bugle_db ?m = [?item]"
    by (simp add: model_defs sample_defs)
  have ok: "row_message sample_env sms_columns ?item =
      Inr (projr (row_message sample_env sms_columns ?item))"
    by (simp add: model_defs sample_defs)
  have "?item \<in> set (bugle_rows_of sample_bugle_db ?m)"
    by (simp add: rows)
  from bugle_unknown_sender_is_sent [OF this ok] g rows show ?thesis by simp
qed

text \<open>
  The claim as stated fails: the sample store has one message, its sender is in the
  unknown-contact group, and the record the run produces for it has direction sent.
\<close>

theorem bugle_unknown_sender_counterexample:
  "sender_in_unknown_group sample_bugle_db (hd (messages sample_bugle_db)) \<and>
   map (\<lambda>m. getitem m ''direction'')
     (results (snd (run (chatapp_env sample_bugle_db) new_module))) = [Inr (PStr ''sent'')] \<and>
   getitem (hd (results (snd (run (chatapp_env sample_bugle_db) new_module)))) ''direction''
     \<noteq> Inr (PStr ''received'')"
  by (simp add: chatapp_run) (simp add: sender_in_unknown_group_def sample_bugle_db_def)

section \<open>The records of the backup path\<close>

lemma getitem_setitem:
  "setitem m k v = Inr m' \<Longrightarrow> getitem m' k' = (if k' = k then Inr v else getitem m k')"
  by (cases m) (auto simp: update_conv')

lemma sample_backup_record:
  "backup_message sample_env sample_backup_message =
     Inr (PDict [(''address'', PStr ''+1555''), (''body'', PStr ''http://evil.example''),
                 (''date'', PStr ''1644000000123''), (''date_sent'', PStr ''0''),
                 (''isodate'', PDatetime 1644000000123000),
                 (''direction'', PStr ''received'')])"
  by code_simp

text \<open>
  C7. A message of the backup that gives a record has a \<open>date\<close> that \<open>int\<close> reads as
  some \<open>ms\<close>; the timestamp handed to the clock is \<open>ms / 1000\<close>, \<open>isodate\<close> is the
  ISO conversion of what the clock returns for it, and \<open>direction\<close> is sent exactly
  when \<open>int(date_sent)\<close> is not zero, received otherwise.
\<close>

theorem backup_message_isodate_direction:
  "backup_message env x = Inr message \<Longrightarrow>
   \<exists>d ms utc iso ds n.
     getitem x ''date'' = Inr d \<and> py_int d = Inr ms \<and>
     utcfromtimestamp env (of_int ms / 1000) = Inr utc \<and>
     convert_timestamp_to_iso env utc = Inr iso \<and>
     getitem message ''isodate'' = Inr iso \<and>
     getitem x ''date_sent'' = Inr ds \<and> py_int ds = Inr n \<and>
     getitem message ''direction'' = Inr (PStr (if n \<noteq> 0 then ''sent'' else ''received''))"
proof -
  assume a: "backup_message env x = Inr message"
  from a obtain d where d: "getitem x ''date'' = Inr d"
    by (cases "getitem x ''date''") (auto simp: backup_message_def py_bind_def)
  from a d obtain ms where ms: "py_int d = Inr ms"
    by (cases "py_int d") (auto simp: backup_message_def py_bind_def)
  from a d ms obtain utc where utc: "utcfromtimestamp env (of_int ms / 1000) = Inr utc"
    by (cases "utcfromtimestamp env (of_int ms / 1000)")
       (auto simp: backup_message_def py_bind_def)
  from a d ms utc obtain iso where iso: "convert_timestamp_to_iso env utc = Inr iso"
    by (cases "convert_timestamp_to_iso env utc") (auto simp: backup_message_def py_bind_def)
  from a d ms utc iso obtain m1 where m1: "setitem x ''isodate'' iso = Inr m1"
    by (cases "setitem x ''isodate'' iso") (auto simp: backup_message_def py_bind_def)
  from a d ms utc iso m1 obtain ds where ds: "getitem m1 ''date_sent'' = Inr ds"
    by (cases "getitem m1 ''date_sent''") (auto simp: backup_message_def py_bind_def)
  from a d ms utc iso m1 ds obtain n where n: "py_int ds = Inr n"
    by (cases "py_int ds") (auto simp: backup_message_def py_bind_def)
  from a d ms utc iso m1 ds n
  have fin: "setitem m1 ''direction'' (PStr (if n \<noteq> 0 then ''sent'' else ''received''))
               = Inr message"
    by (simp add: backup_message_def py_bind_def)
  have "getitem message ''isodate'' = getitem m1 ''isodate''"
    using getitem_setitem [OF fin, of "''isodate''"] by simp
  also have "\<dots> = Inr iso"
    using getitem_setitem [OF m1, of "''isodate''"] by simp
  finally have r1: "getitem message ''isodate'' = Inr iso" .
  have r2: "getitem x ''date_sent'' = Inr ds"
    using getitem_setitem [OF m1, of "''date_sent''"] ds by simp
  have r3: "getitem message ''direction'' =
      Inr (PStr (if n \<noteq> 0 then ''sent'' else ''received''))"
    using getitem_setitem [OF fin, of "''direction''"] by simp
  from d ms utc iso r1 r2 n r3 show ?thesis by blast
qed

text \<open>The sample message, dated 1644000000123 ms and never sent, gives a record.\<close>

theorem backup_message_isodate_direction_witness:
  "getitem (projr (backup_message sample_env sample_backup_message)) ''isodate'' =
     Inr (PDatetime 1644000000123000) \<and>
   (\<exists>message d ms utc iso ds n.
      backup_message sample_env sample_backup_message = Inr message \<and>
      getitem sample_backup_message ''date'' = Inr d \<and> py_int d = Inr ms \<and>
      utcfromtimestamp sample_env (of_int ms / 1000) = Inr utc \<and>
      convert_timestamp_to_iso sample_env utc = Inr iso \<and>
      getitem message ''isodate'' = Inr iso \<and>
      getitem sample_backup_message ''date_sent'' = Inr ds \<and> py_int ds = Inr n \<and>
      getitem message ''direction'' = Inr (PStr (if n \<noteq> 0 then ''sent'' else ''received'')))"
  using backup_message_isodate_direction [OF sample_backup_record] sample_backup_record
  by simp

section \<open>A NULL body in the direct-access path\<close>

lemma retain_null_body:
  "getitem message ''body'' = Inr PNone \<Longrightarrow> \<not> has_link env PNone \<Longrightarrow>
   \<exists>e. retain env message = Inl e"
  by (cases "check_for_links env PNone")
     (auto simp: retain_def py_bind_def has_link_def split: list.splits)

lemma row_message_body:
  "row_message env sms_columns [a, ts, inc, b] = Inr message \<Longrightarrow>
   getitem message ''body'' = Inr b"
  by (auto simp: row_message_def sms_columns_def py_bind_def split: sum.splits)

text \<open>
  C10. A row whose body column is NULL reaches Python as None. Unless the link
  detector reports links for None, the condition of line 106 raises for such a row
  (the detector raises, or \<open>None.strip()\<close> does): the loop stops with an exception at
  that row and appends nothing for it, so the row is neither retained nor discarded.
  When the body is a text on which the detector does not raise, the condition has a
  value.
\<close>

theorem null_body_fails:
  "(\<not> has_link env PNone \<longrightarrow>
      (\<exists>e. parse_rows env sms_columns ([a, ts, inc, PNone] # items) s = (Raised e, s))) \<and>
   (getitem message ''body'' = Inr PNone \<and> \<not> has_link env PNone \<longrightarrow>
      (\<exists>e. retain env message = Inl e)) \<and>
   (getitem message ''body'' = Inr (PStr t) \<and> \<not> isl (check_for_links env (PStr t)) \<longrightarrow>
      \<not> isl (retain env message))"
proof (intro conjI impI)
  assume h: "\<not> has_link env PNone"
  show "\<exists>e. parse_rows env sms_columns ([a, ts, inc, PNone] # items) s = (Raised e, s)"
  proof (cases "row_message env sms_columns [a, ts, inc, PNone]")
    case (Inl e)
    then show ?thesis by simp
  next
    case (Inr m)
    from row_message_body [OF Inr] h obtain e where "retain env m = Inl e"
      using retain_null_body by blast
    with Inr show ?thesis by simp
  qed
next
  assume "getitem message ''body'' = Inr PNone \<and> \<not> has_link env PNone"
  then show "\<exists>e. retain env message = Inl e"
    using retain_null_body by blast
next
  assume "getitem message ''body'' = Inr (PStr t) \<and> \<not> isl (check_for_links env (PStr t))"
  then show "\<not> isl (retain env message)"
    by (cases "check_for_links env (PStr t)") (auto simp: retain_def py_bind_def)
qed

theorem null_body_fails_witness:
  "\<not> has_link sample_env PNone \<and>
   parse_rows sample_env sms_columns
     [[PStr ''+1558'', PInt 0, PInt 1, PNone]] new_module = (Raised TypeError, new_module) \<and>
   retain sample_env (PDict [(''body'', PStr ''ok see you then'')]) = Inr False"
proof -
  have h: "\<not> has_link sample_env PNone"
    by (simp add: has_link_def sample_defs)
  have "\<exists>e. parse_rows sample_env sms_columns
     [[PStr ''+1558'', PInt 0, PInt 1, PNone]] new_module = (Raised e, new_module)"
    using null_body_fails [of sample_env "PStr ''+1558''" "PInt 0" "PInt 1" "[]" new_module]
      h by blast
  moreover have "fst (parse_rows sample_env sms_columns
     [[PStr ''+1558'', PInt 0, PInt 1, PNone]] new_module) = Raised TypeError"
    by (simp add: model_defs sample_defs)
  moreover have "retain sample_env (PDict [(''body'', PStr ''ok see you then'')]) = Inr False"
    by (simp add: model_defs sample_defs)
  ultimately show ?thesis using h by auto
qed

section \<open>The connection of \<open>_parse_db\<close>\<close>

text \<open>
  C9, as the code has it. \<open>_parse_db\<close> closes the connection only by the \<open>close()\<close>
  calls after the loop: the connection is closed when \<open>_parse_db\<close> returns normally,
  and it is still open whenever \<open>_parse_db\<close> leaves with an exception (a failing query,
  a failing normalisation or retention test of a row).
\<close>

theorem parse_db_closes_iff_returned:
  "parse_db env db s = (out, s') \<Longrightarrow> conn_open s' = (out \<noteq> Returned)"
  unfolding parse_db_def Let_def
  by (auto split: option.splits if_splits sum.splits prod.splits outcome.splits
        dest!: parse_rows_frame)

theorem parse_db_closes_iff_returned_witness:
  "fst (parse_db (legacy_env sample_sms_table)
          \<lparr>bugle_tables = None, sms_table = Some sample_sms_table\<rparr>
          (new_module\<lparr>SMS_DB_TYPE := Some 2\<rparr>)) = Returned \<and>
   \<not> conn_open (snd (parse_db (legacy_env sample_sms_table)
          \<lparr>bugle_tables = None, sms_table = Some sample_sms_table\<rparr>
          (new_module\<lparr>SMS_DB_TYPE := Some 2\<rparr>)))"
proof -
  let ?r = "parse_db (legacy_env sample_sms_table)
          \<lparr>bugle_tables = None, sms_table = Some sample_sms_table\<rparr>
          (new_module\<lparr>SMS_DB_TYPE := Some 2\<rparr>)"
  have r: "fst ?r = Returned"
    by (simp add: model_defs sample_defs)
  have "?r = (fst ?r, snd ?r)" by simp
  from parse_db_closes_iff_returned [OF this] r show ?thesis
    by simp
qed

text \<open>
  The claim as stated fails: on a store whose only row has a NULL body \<open>_parse_db\<close>
  leaves with TypeError and the connection is open.
\<close>

theorem parse_db_leaves_connection_open_counterexample:
  "fst (parse_db sample_env \<lparr>bugle_tables = None, sms_table = Some [null_body_row]\<rparr>
          (new_module\<lparr>SMS_DB_TYPE := Some 2\<rparr>)) = Raised TypeError \<and>
   conn_open (snd (parse_db sample_env \<lparr>bugle_tables = None, sms_table = Some [null_body_row]\<rparr>
          (new_module\<lparr>SMS_DB_TYPE := Some 2\<rparr>)))"
  by (simp add: model_defs sample_defs)

section \<open>The container check of the backup path\<close>

lemma takeWhile_line:
  "CHR 0x0A \<notin> set a \<Longrightarrow> takeWhile (\<lambda>c. c \<noteq> CHR 0x0A) (a @ CHR 0x0A # rest) = a"
  by (induction a) auto

lemma dropWhile_line:
  "CHR 0x0A \<notin> set a \<Longrightarrow>
   dropWhile (\<lambda>c. c \<noteq> CHR 0x0A) (a @ CHR 0x0A # rest) = CHR 0x0A # rest"
  by (induction a) auto

lemma py_split_nl_line:
  "CHR 0x0A \<notin> set a \<Longrightarrow> py_split_nl (Suc n) (a @ CHR 0x0A # rest) = a # py_split_nl n rest"
  by (simp add: takeWhile_line dropWhile_line)

lemma backup_stream_fields:
  assumes "CHR 0x0A \<notin> set v" "CHR 0x0A \<notin> set c" "CHR 0x0A \<notin> set e"
  shows "py_split_nl 4 (backup_stream v c e tar) = [''ANDROID BACKUP'', v, c, e, tar]"
proof -
  have m: "CHR 0x0A \<notin> set ''ANDROID BACKUP''" by simp
  have "py_split_nl (Suc (Suc (Suc (Suc 0)))) (backup_stream v c e tar)
          = [''ANDROID BACKUP'', v, c, e, tar]"
    unfolding backup_stream_def
    by (simp only: py_split_nl_line [OF m] py_split_nl_line [OF assms(1)]
          py_split_nl_line [OF assms(2)] py_split_nl_line [OF assms(3)] py_split_nl.simps(1))
  then show ?thesis by (simp add: eval_nat_numeral)
qed

lemma backup_stream_magic: "py_startswith (backup_stream v c e tar) ''ANDROID BACKUP''"
  by (simp add: py_startswith_def backup_stream_def)

lemma decode_backup_rejects:
  assumes "py_startswith stream ''ANDROID BACKUP''"
    and "py_split_nl 4 stream = [h, v, c, e, tar]"
    and "e \<noteq> ''none'' \<or> (\<exists>n. py_int (PBytes c) = Inr n \<and> n \<noteq> 0)"
  shows "decode_backup env stream s = (Returned, emit LogError s)"
  using assms by (auto simp: decode_backup_def)

text \<open>
  C4, as the code has it. A stream that passes the magic check and splits into five
  fields is rejected (an error is logged, the decoder returns normally, nothing is
  appended, the archive is never opened) when its encryption field is not "none", or
  when its encryption field is "none" and \<open>int\<close> reads its compression field as a
  non-zero integer. So is every stream in the wire format whose header lines say so,
  whatever its payload.
\<close>

theorem unsupported_container_rejected:
  "(py_startswith stream ''ANDROID BACKUP'' \<and> py_split_nl 4 stream = [h, v, c, e, tar] \<and>
    (e \<noteq> ''none'' \<or> (\<exists>n. py_int (PBytes c) = Inr n \<and> n \<noteq> 0)) \<longrightarrow>
      decode_backup env stream s = (Returned, emit LogError s) \<and>
      results (snd (decode_backup env stream s)) = results s) \<and>
   (CHR 0x0A \<notin> set version \<and> CHR 0x0A \<notin> set is_compressed \<and> CHR 0x0A \<notin> set encryption \<and>
    (encryption \<noteq> ''none'' \<or> (\<exists>n. py_int (PBytes is_compressed) = Inr n \<and> n \<noteq> 0)) \<longrightarrow>
      decode_backup env (backup_stream version is_compressed encryption payload) s
        = (Returned, emit LogError s))"
proof -
  have first: "decode_backup env stream s = (Returned, emit LogError s) \<and>
      results (snd (decode_backup env stream s)) = results s"
    if "py_startswith stream ''ANDROID BACKUP'' \<and> py_split_nl 4 stream = [h, v, c, e, tar] \<and>
        (e \<noteq> ''none'' \<or> (\<exists>n. py_int (PBytes c) = Inr n \<and> n \<noteq> 0))"
  proof -
    from that have "decode_backup env stream s = (Returned, emit LogError s)"
      using decode_backup_rejects by blast
    then show ?thesis by simp
  qed
  have second: "decode_backup env (backup_stream version is_compressed encryption payload) s
        = (Returned, emit LogError s)"
    if "CHR 0x0A \<notin> set version \<and> CHR 0x0A \<notin> set is_compressed \<and>
        CHR 0x0A \<notin> set encryption \<and>
        (encryption \<noteq> ''none'' \<or> (\<exists>n. py_int (PBytes is_compressed) = Inr n \<and> n \<noteq> 0))"
  proof -
    from that have "py_split_nl 4 (backup_stream version is_compressed encryption payload)
        = [''ANDROID BACKUP'', version, is_compressed, encryption, payload]"
      using backup_stream_fields by blast
    with that show ?thesis
      using decode_backup_rejects [OF backup_stream_magic] by blast
  qed
  from first second show ?thesis by blast
qed

text \<open>An encrypted stream, and a stream flagged as compressed, both over a payload that
  is no archive.\<close>

theorem unsupported_container_rejected_witness:
  "decode_backup sample_env (backup_stream ''5'' ''0'' ''AES-256'' ''junk'') new_module
     = (Returned, emit LogError new_module) \<and>
   decode_backup sample_env (backup_stream ''5'' ''1'' ''none'' ''junk'') new_module
     = (Returned, emit LogError new_module)"
proof -
  have n: "py_int (PBytes ''1'') = Inr 1" by code_simp
  have "decode_backup sample_env (backup_stream ''5'' ''0'' ''AES-256'' ''junk'') new_module
     = (Returned, emit LogError new_module)"
    using unsupported_container_rejected
      [where version = "''5''" and is_compressed = "''0''" and encryption = "''AES-256''"
         and env = sample_env and payload = "''junk''" and s = new_module]
    by simp
  moreover have "decode_backup sample_env (backup_stream ''5'' ''1'' ''none'' ''junk'') new_module
     = (Returned, emit LogError new_module)"
    using unsupported_container_rejected
      [where version = "''5''" and is_compressed = "''1''" and encryption = "''none''"
         and env = sample_env and payload = "''junk''" and s = new_module] n
    by simp
  ultimately show ?thesis by simp
qed

text \<open>
  The claim as stated fails in three ways. A compression field that is no integer
  ("x", with encryption "none") raises ValueError. A stream that ends after the
  encryption field "aes" (three newlines, no payload) raises ValueError at the
  unpacking. A compression field "00" is not "0", yet it reads as zero: the stream is
  accepted and the record of its archive is appended.
\<close>

theorem unsupported_container_counterexample:
  "py_startswith (backup_stream ''5'' ''x'' ''none'' ''junk'') ''ANDROID BACKUP'' \<and>
   decode_backup sample_env (backup_stream ''5'' ''x'' ''none'' ''junk'') new_module
     = (Raised ValueError, new_module) \<and>
   py_startswith (''ANDROID BACKUP'' @ CHR 0x0A # ''5'' @ CHR 0x0A # ''1'' @ CHR 0x0A # ''aes'')
     ''ANDROID BACKUP'' \<and>
   decode_backup sample_env
     (''ANDROID BACKUP'' @ CHR 0x0A # ''5'' @ CHR 0x0A # ''1'' @ CHR 0x0A # ''aes'') new_module
     = (Raised ValueError, new_module) \<and>
   fst (decode_backup
          (backup_env [] (Inr [(''apps/d_f/000000_sms_backup'', Inr ''z'')])
             (Inr (PList [sample_backup_message])))
          (backup_stream ''5'' ''00'' ''none'' ''tar'') new_module) = Returned \<and>
   length (results (snd (decode_backup
          (backup_env [] (Inr [(''apps/d_f/000000_sms_backup'', Inr ''z'')])
             (Inr (PList [sample_backup_message])))
          (backup_stream ''5'' ''00'' ''none'' ''tar'') new_module))) = 1"
  by code_simp

section \<open>The selector\<close>

lemma denied_direct_access:
  "direct_access (backup_env stream members json) new_module =
     (Raised InsufficientPrivileges, emit (CheckFileExists (''/'' @ SMS_BUGLE_PATH)) new_module)"
  by (simp add: direct_access_def backup_env_def sample_env_def Let_def)

lemma run_after_denial:
  "direct_access env s = (Raised InsufficientPrivileges, s1) \<Longrightarrow>
   run env s = extract_sms_adb env (emit LogWarning s1)"
  by (simp add: run_def)

text \<open>
  C6. When the body of the \<open>try\<close> raises InsufficientPrivileges, \<open>run\<close> does not raise
  it: it logs the warning and calls \<open>_extract_sms_adb\<close>, whose outcome is the outcome of
  the run; the backup command is issued after the denial.
\<close>

theorem privilege_denial_falls_back:
  "direct_access env s = (Raised InsufficientPrivileges, s1) \<Longrightarrow>
   run env s = extract_sms_adb env (emit LogWarning s1) \<and>
   (\<exists>evs. events (snd (run env s)) =
      events s1 @ [LogWarning, LogWarning, AdbCommand backup_command] @ evs)"
proof -
  assume a: "direct_access env s = (Raised InsufficientPrivileges, s1)"
  then have r: "run env s = extract_sms_adb env (emit LogWarning s1)"
    by (rule run_after_denial)
  obtain out s' where b: "extract_sms_adb env (emit LogWarning s1) = (out, s')"
    by (cases "extract_sms_adb env (emit LogWarning s1)")
  from extract_sms_adb_events [OF b] obtain evs
    where "events s' = events (emit LogWarning s1) @ [LogWarning, AdbCommand backup_command] @ evs"
    by blast
  then have "events (snd (run env s)) =
      events s1 @ [LogWarning, LogWarning, AdbCommand backup_command] @ evs"
    using r b by simp
  with r show ?thesis by blast
qed

text \<open>A device that denies the probe and answers the backup command with an
  encrypted stream: the run falls back, rejects the stream and returns.\<close>

theorem privilege_denial_falls_back_witness:
  "fst (direct_access (backup_env (backup_stream ''5'' ''0'' ''AES-256'' ''junk'') (Inr []) (Inr PNone))
          new_module) = Raised InsufficientPrivileges \<and>
   run (backup_env (backup_stream ''5'' ''0'' ''AES-256'' ''junk'') (Inr []) (Inr PNone)) new_module =
     (Returned,
      \<lparr>results = [], SMS_DB_TYPE = None, conn_open = False,
       events = [CheckFileExists (''/'' @ SMS_BUGLE_PATH), LogWarning, LogWarning,
                 AdbCommand backup_command, LogError]\<rparr>)"
proof -
  let ?env = "backup_env (backup_stream ''5'' ''0'' ''AES-256'' ''junk'') (Inr []) (Inr PNone)"
  have "run ?env new_module =
      extract_sms_adb ?env
        (emit LogWarning (emit (CheckFileExists (''/'' @ SMS_BUGLE_PATH)) new_module))"
    using privilege_denial_falls_back [OF denied_direct_access] by blast
  moreover have "extract_sms_adb ?env
        (emit LogWarning (emit (CheckFileExists (''/'' @ SMS_BUGLE_PATH)) new_module)) =
     (Returned,
      \<lparr>results = [], SMS_DB_TYPE = None, conn_open = False,
       events = [CheckFileExists (''/'' @ SMS_BUGLE_PATH), LogWarning, LogWarning,
                 AdbCommand backup_command, LogError]\<rparr>)"
    by code_simp
  ultimately show ?thesis by (simp add: denied_direct_access)
qed

section \<open>Which errors leave \<open>run\<close>\<close>

lemma extract_sms_adb_rejects:
  assumes "py_bind (adb_command env backup_command) (b64decode env) = Inr stream"
    and "\<not> py_startswith stream ''ANDROID BACKUP'' \<or>
         (\<exists>h v c e tar. py_split_nl 4 stream = [h, v, c, e, tar] \<and>
            (e \<noteq> ''none'' \<or> (\<exists>n. py_int (PBytes c) = Inr n \<and> n \<noteq> 0)))"
  shows "fst (extract_sms_adb env s) = Returned \<and>
         results (snd (extract_sms_adb env s)) = results s"
proof (cases "py_startswith stream ''ANDROID BACKUP''")
  case False
  with assms(1) show ?thesis
    by (simp add: extract_sms_adb_def decode_backup_def Let_def)
next
  case True
  with assms(2) obtain h v c e tar where f: "py_split_nl 4 stream = [h, v, c, e, tar]"
    "e \<noteq> ''none'' \<or> (\<exists>n. py_int (PBytes c) = Inr n \<and> n \<noteq> 0)"
    by blast
  have "decode_backup env stream (emit (AdbCommand backup_command) (emit LogWarning s)) =
      (Returned, emit LogError (emit (AdbCommand backup_command) (emit LogWarning s)))"
    using decode_backup_rejects [OF True f] .
  with assms(1) show ?thesis
    by (simp add: extract_sms_adb_def Let_def)
qed

lemma extract_sms_adb_bad_archive:
  assumes "py_bind (adb_command env backup_command) (b64decode env) = Inr stream"
    and "py_startswith stream ''ANDROID BACKUP''"
    and "py_split_nl 4 stream = [h, v, c, ''none'', tar]"
    and "py_int (PBytes c) = Inr 0"
    and "tarfile_open env tar = Inl e"
  shows "fst (extract_sms_adb env s) = Raised e"
  using assms
  by (simp add: extract_sms_adb_def decode_backup_def extract_sms_from_backup_tar_def Let_def)

text \<open>
  C3, as the code has it. \<open>run\<close> has one handler, for InsufficientPrivileges raised in
  the body of its \<open>try\<close>. Whatever happens, the result set only grows. The run returns
  normally when the direct-access path does, and, after a denial, when the decoded
  output of the backup command fails the magic check or is a five-field stream that is
  encrypted or flagged as compressed. Any other exception of the direct-access path
  leaves \<open>run\<close>, and so does every exception of the backup path, which runs outside
  the \<open>try\<close>: an archive that tarfile cannot open is one of them.
\<close>

theorem run_returns_or_propagates:
  "(run env s = (out, s') \<longrightarrow> (\<exists>ms. results s' = results s @ ms)) \<and>
   (direct_access env s = (Returned, s1) \<longrightarrow> run env s = (Returned, s1)) \<and>
   (direct_access env s = (Raised InsufficientPrivileges, s1) \<and>
    py_bind (adb_command env backup_command) (b64decode env) = Inr stream \<and>
    (\<not> py_startswith stream ''ANDROID BACKUP'' \<or>
     (\<exists>h v c e tar. py_split_nl 4 stream = [h, v, c, e, tar] \<and>
        (e \<noteq> ''none'' \<or> (\<exists>n. py_int (PBytes c) = Inr n \<and> n \<noteq> 0)))) \<longrightarrow>
      fst (run env s) = Returned \<and> results (snd (run env s)) = results s1) \<and>
   (direct_access env s = (Raised err, s1) \<and> err \<noteq> InsufficientPrivileges \<longrightarrow>
      run env s = (Raised err, s1)) \<and>
   (direct_access env s = (Raised InsufficientPrivileges, s1) \<and>
    extract_sms_adb env (emit LogWarning s1) = (Raised err, s2) \<longrightarrow>
      run env s = (Raised err, s2)) \<and>
   (direct_access env s = (Raised InsufficientPrivileges, s1) \<and>
    py_bind (adb_command env backup_command) (b64decode env) = Inr stream \<and>
    py_startswith stream ''ANDROID BACKUP'' \<and>
    py_split_nl 4 stream = [h, v, c, ''none'', tar] \<and> py_int (PBytes c) = Inr 0 \<and>
    tarfile_open env tar = Inl err \<longrightarrow>
      fst (run env s) = Raised err)"
proof -
  have p1: "\<exists>ms. results s' = results s @ ms" if "run env s = (out, s')"
    using run_kept [OF that] kept_suffixE by blast
  have p2: "run env s = (Returned, s1)" if "direct_access env s = (Returned, s1)"
    using that by (simp add: run_def)
  have p3: "fst (run env s) = Returned \<and> results (snd (run env s)) = results s1"
    if "direct_access env s = (Raised InsufficientPrivileges, s1) \<and>
        py_bind (adb_command env backup_command) (b64decode env) = Inr stream \<and>
        (\<not> py_startswith stream ''ANDROID BACKUP'' \<or>
         (\<exists>h v c e tar. py_split_nl 4 stream = [h, v, c, e, tar] \<and>
            (e \<noteq> ''none'' \<or> (\<exists>n. py_int (PBytes c) = Inr n \<and> n \<noteq> 0))))"
  proof -
    from that have r: "run env s = extract_sms_adb env (emit LogWarning s1)"
      using run_after_denial by blast
    from that have "fst (extract_sms_adb env (emit LogWarning s1)) = Returned \<and>
         results (snd (extract_sms_adb env (emit LogWarning s1))) = results (emit LogWarning s1)"
      by (intro extract_sms_adb_rejects [of env stream]) blast+
    with r show ?thesis by simp
  qed
  have p4: "run env s = (Raised err, s1)"
    if "direct_access env s = (Raised err, s1) \<and> err \<noteq> InsufficientPrivileges"
    using that by (simp add: run_def)
  have p5: "run env s = (Raised err, s2)"
    if "direct_access env s = (Raised InsufficientPrivileges, s1) \<and>
        extract_sms_adb env (emit LogWarning s1) = (Raised err, s2)"
    using that by (simp add: run_def)
  have p6: "fst (run env s) = Raised err"
    if "direct_access env s = (Raised InsufficientPrivileges, s1) \<and>
        py_bind (adb_command env backup_command) (b64decode env) = Inr stream \<and>
        py_startswith stream ''ANDROID BACKUP'' \<and>
        py_split_nl 4 stream = [h, v, c, ''none'', tar] \<and> py_int (PBytes c) = Inr 0 \<and>
        tarfile_open env tar = Inl err"
  proof -
    from that have r: "run env s = extract_sms_adb env (emit LogWarning s1)"
      using run_after_denial by blast
    from that have "fst (extract_sms_adb env (emit LogWarning s1)) = Raised err"
      by (intro extract_sms_adb_bad_archive [of env stream h v c tar]) blast+
    with r show ?thesis by simp
  qed
  from p1 p2 p3 p4 p5 p6 show ?thesis by blast
qed


text \<open>After a denial, an encrypted stream over a payload that is no archive: the run
  returns with no record.\<close>

theorem run_returns_or_propagates_witness:
  "fst (run (backup_env (backup_stream ''5'' ''0'' ''AES-256'' ''junk'')
              (Inl (LibraryError ''tarfile'')) (Inr PNone)) new_module) = Returned \<and>
   results (snd (run (backup_env (backup_stream ''5'' ''0'' ''AES-256'' ''junk'')
              (Inl (LibraryError ''tarfile'')) (Inr PNone)) new_module)) = []"
proof -
  let ?stream = "backup_stream ''5'' ''0'' ''AES-256'' ''junk''"
  let ?env = "backup_env ?stream (Inl (LibraryError ''tarfile'')) (Inr PNone)"
  let ?s1 = "emit (CheckFileExists (''/'' @ SMS_BUGLE_PATH)) new_module"
  have d: "direct_access ?env new_module = (Raised InsufficientPrivileges, ?s1)"
    by (rule denied_direct_access)
  have o: "py_bind (adb_command ?env backup_command) (b64decode ?env) = Inr ?stream"
    by (simp add: backup_env_def sample_env_def py_bind_def)
  have f: "py_split_nl 4 ?stream = [''ANDROID BACKUP'', ''5'', ''0'', ''AES-256'', ''junk'']"
    by (rule backup_stream_fields) simp_all
  have "fst (run ?env new_module) = Returned \<and>
        results (snd (run ?env new_module)) = results ?s1"
    using run_returns_or_propagates
      [where env = "?env" and s = new_module and ?s1.0 = "?s1" and stream = "?stream"]
      d o f
    by blast
  then show ?thesis by (simp add: new_module_def)
qed

text \<open>
  The claim as stated fails: after a denial, a well-formed container whose payload is
  no tar archive, a member that does not inflate, and a member that is no JSON each
  make \<open>run\<close> leave with the exception of the library.
\<close>

theorem run_error_escapes_counterexample:
  "fst (run (backup_env (backup_stream ''5'' ''0'' ''none'' ''junk'')
              (Inl (LibraryError ''tarfile'')) (Inr PNone)) new_module)
     = Raised (LibraryError ''tarfile'') \<and>
   fst (run ((backup_env (backup_stream ''5'' ''0'' ''none'' ''tar'')
               (Inr [(''apps/d_f/000000_sms_backup'', Inr ''plain'')]) (Inr PNone))
              \<lparr>zlib_decompress := (\<lambda>b. Inl (LibraryError ''zlib''))\<rparr>) new_module)
     = Raised (LibraryError ''zlib'') \<and>
   fst (run (backup_env (backup_stream ''5'' ''0'' ''none'' ''tar'')
              (Inr [(''apps/d_f/000000_sms_backup'', Inr ''{'')])
              (Inl (LibraryError ''json''))) new_module)
     = Raised (LibraryError ''json'')"
  by code_simp

section \<open>The schema variant of a run\<close>

lemma parse_db_trace:
  assumes "parse_db env db s = (out, s')" and "SMS_DB_TYPE s = Some t" and "t = 1 \<or> t = 2"
  shows "SMS_DB_TYPE s' = Some t \<and>
         direct_trace (events s') =
           direct_trace (events s) @
             [Execute (if t = 1 then SMS_BUGLE_QUERY else SMS_MMSMS_QUERY)]"
  using assms unfolding parse_db_def Let_def
  by (auto split: option.splits if_splits sum.splits prod.splits outcome.splits
        dest!: parse_rows_frame)

lemma adb_process_file_trace:
  assumes "adb_process_file env p (parse_db env) s = (out, s')"
    and "SMS_DB_TYPE s = Some t" and "t = 1 \<or> t = 2"
  shows "SMS_DB_TYPE s' = Some t \<and>
         direct_trace (events s') =
           direct_trace (events s) @
             (case adb_copy_file env p of
                Inl e \<Rightarrow> []
              | Inr local_copy \<Rightarrow> [Execute (if t = 1 then SMS_BUGLE_QUERY else SMS_MMSMS_QUERY)])"
proof (cases "adb_copy_file env p")
  case (Inl e)
  with assms show ?thesis by (auto simp: adb_process_file_def Let_def)
next
  case (Inr local_copy)
  with assms(1) have "parse_db env local_copy (emit (ProcessFile p) s) = (out, s')"
    by (simp add: adb_process_file_def Let_def)
  from parse_db_trace [OF this, of t] assms(2,3) Inr show ?thesis by simp
qed

lemma direct_access_trace:
  assumes "direct_access env s = (out, s')"
  shows "direct_trace (events s') = direct_trace (events s) @ spec_direct_trace env \<and>
         SMS_DB_TYPE s' =
           (case spec_variant env of None \<Rightarrow> SMS_DB_TYPE s | Some q \<Rightarrow> Some (variant_type q))"
proof (cases "adb_check_file_exists env (''/'' @ SMS_BUGLE_PATH)")
  case (Inl e)
  with assms show ?thesis
    by (auto simp: direct_access_def Let_def spec_direct_trace_def spec_variant_def)
next
  case bugle: (Inr found)
  show ?thesis
  proof (cases found)
    case True
    let ?s1 = "(emit (CheckFileExists (''/'' @ SMS_BUGLE_PATH)) s)\<lparr>SMS_DB_TYPE := Some 1\<rparr>"
    from assms bugle True
    have "adb_process_file env (''/'' @ SMS_BUGLE_PATH) (parse_db env) ?s1 = (out, s')"
      by (simp add: direct_access_def Let_def)
    from adb_process_file_trace [OF this, of 1] bugle True show ?thesis
      by (simp add: spec_direct_trace_def spec_variant_def variant_path_def variant_type_def
            emit_def)
  next
    case False
    let ?s2 = "emit (CheckFileExists (''/'' @ SMS_MMSSMS_PATH))
                 (emit (CheckFileExists (''/'' @ SMS_BUGLE_PATH)) s)"
    show ?thesis
    proof (cases "adb_check_file_exists env (''/'' @ SMS_MMSSMS_PATH)")
      case (Inl e)
      with assms bugle False show ?thesis
        by (auto simp: direct_access_def Let_def spec_direct_trace_def spec_variant_def)
    next
      case legacy: (Inr found2)
      show ?thesis
      proof (cases found2)
        case True
        from assms bugle False legacy True
        have "adb_process_file env (''/'' @ SMS_MMSSMS_PATH) (parse_db env)
                (?s2\<lparr>SMS_DB_TYPE := Some 2\<rparr>) = (out, s')"
          by (simp add: direct_access_def Let_def)
        from adb_process_file_trace [OF this, of 2] bugle False legacy True show ?thesis
          by (simp add: spec_direct_trace_def spec_variant_def variant_path_def
                variant_type_def emit_def)
      next
        case nf: False
        with assms bugle False legacy show ?thesis
          by (auto simp: direct_access_def Let_def spec_direct_trace_def spec_variant_def)
      qed
    qed
  qed
qed

lemma spec_direct_trace_queries:
  "Execute q \<in> set (spec_direct_trace env) \<Longrightarrow> spec_variant env = Some q"
  by (auto simp: spec_direct_trace_def split: if_splits option.splits sum.splits)

text \<open>
  C8. The probes and queries of a run are exactly those the specification allows: the
  ChatApp path is probed first, the LegacyTelephony path only when the ChatApp probe
  found nothing, and the only query executed is that of the variant found, at most
  once. \<open>SMS_DB_TYPE\<close> is set to the variant of the first path found and keeps that
  value to the end of the run (through the backup path as well); when no path is found
  it is not set at all.
\<close>

theorem variant_probed_once_in_order:
  "run env s = (out, s') \<Longrightarrow>
   direct_trace (events s') = direct_trace (events s) @ spec_direct_trace env \<and>
   SMS_DB_TYPE s' =
     (case spec_variant env of None \<Rightarrow> SMS_DB_TYPE s | Some q \<Rightarrow> Some (variant_type q)) \<and>
   list_all (\<lambda>ev. case ev of Execute q \<Rightarrow> spec_variant env = Some q | _ \<Rightarrow> True)
     (spec_direct_trace env) \<and>
   length (filter (\<lambda>ev. case ev of Execute q \<Rightarrow> True | _ \<Rightarrow> False) (spec_direct_trace env))
     \<le> 1"
proof -
  assume a: "run env s = (out, s')"
  obtain o1 s1 where d: "direct_access env s = (o1, s1)"
    by (cases "direct_access env s")
  note t1 = direct_access_trace [OF d]
  have same: "direct_trace (events s') = direct_trace (events s1) \<and>
              SMS_DB_TYPE s' = SMS_DB_TYPE s1"
  proof (cases "o1 = Raised InsufficientPrivileges")
    case True
    with a d have "extract_sms_adb env (emit LogWarning s1) = (out, s')"
      by (simp add: run_def)
    from extract_sms_adb_frame [OF this] show ?thesis by auto
  next
    case False
    with a d have "s' = s1" by (cases o1) (auto simp: run_def)
    then show ?thesis by simp
  qed
  have q: "list_all (\<lambda>ev. case ev of Execute q \<Rightarrow> spec_variant env = Some q | _ \<Rightarrow> True)
     (spec_direct_trace env)"
    unfolding list_all_iff using spec_direct_trace_queries
    by (auto split: event.splits)
  have l: "length (filter (\<lambda>ev. case ev of Execute q \<Rightarrow> True | _ \<Rightarrow> False)
             (spec_direct_trace env)) \<le> 1"
    by (auto simp: spec_direct_trace_def split: option.splits sum.splits)
  from t1 same q l show ?thesis by simp
qed

text \<open>On the device with the LegacyTelephony store only: two probes in order, then
  the LegacyTelephony query, and variant 2.\<close>

theorem variant_probed_once_in_order_witness:
  "direct_trace (events (snd (run (legacy_env sample_sms_table) new_module))) =
     [CheckFileExists (''/'' @ SMS_BUGLE_PATH), CheckFileExists (''/'' @ SMS_MMSSMS_PATH),
      Execute SMS_MMSMS_QUERY] \<and>
   SMS_DB_TYPE (snd (run (legacy_env sample_sms_table) new_module)) = Some 2"
proof -
  let ?env = "legacy_env sample_sms_table"
  have r: "run ?env new_module = (fst (run ?env new_module), snd (run ?env new_module))"
    by simp
  have v: "spec_variant ?env = Some SMS_MMSMS_QUERY"
    by (simp add: spec_variant_def sample_defs SMS_BUGLE_PATH_def SMS_MMSSMS_PATH_def)
  have t: "spec_direct_trace ?env =
     [CheckFileExists (''/'' @ SMS_BUGLE_PATH), CheckFileExists (''/'' @ SMS_MMSSMS_PATH),
      Execute SMS_MMSMS_QUERY]"
    by (simp add: spec_direct_trace_def v variant_path_def)
       (simp add: sample_defs SMS_BUGLE_PATH_def SMS_MMSSMS_PATH_def)
  from variant_probed_once_in_order [OF r] v t show ?thesis
    by (simp add: variant_type_def new_module_def)
qed

section \<open>Two instances made with default arguments\<close>




end
